theory Spec2Isabelle
  imports Complex_Main
begin

section \<open>Data model of \<^verbatim>\<open>DataExtractor\<close>\<close>

text \<open>
  The embedding follows \<^verbatim>\<open>src/data_extractor.cpp\<close>. The type \<^verbatim>\<open>double\<close> is a type
  parameter \<open>'d\<close>: its values, its arithmetic and its comparisons belong to the platform
  (see \<open>Platform\<close> below) and are not fixed here. An \<^verbatim>\<open>int\<close> is an \<^typ>\<open>int\<close> whose
  32-bit range is checked where \<^verbatim>\<open>std::stoi\<close> checks it, and a \<^verbatim>\<open>std::size_t\<close> position is
  a \<^typ>\<open>nat option\<close> in which \<open>None\<close> stands for \<^verbatim>\<open>std::string::npos\<close>.
\<close>

record 'd Landmark =
  id :: int
  barcode :: int
  x :: 'd
  y :: 'd
  x_std_dev :: 'd
  y_std_dev :: 'd

text \<open>
  Modelled from the spec: the structs \<^verbatim>\<open>Groundtruth\<close> and \<^verbatim>\<open>Odometry\<close> are declared in the
  header, which is not among the sources; the source only calls their constructors.
  Their fields are those of the specification's data model: (time, x, y, orientation)
  and (time, forward\_velocity, angular\_velocity).
\<close>

record 'd Groundtruth =
  gt_time :: 'd
  gt_x :: 'd
  gt_y :: 'd
  gt_orientation :: 'd

record 'd Odometry =
  od_time :: 'd
  forward_velocity :: 'd
  angular_velocity :: 'd

record 'd Measurement =
  time :: 'd
  subjects :: "int list"
  ranges :: "'d list"
  bearings :: "'d list"

record 'd Raw =
  ground_truth :: "'d Groundtruth list"
  odometry :: "'d Odometry list"
  measurements :: "'d Measurement list"

record 'd Robot =
  raw :: "'d Raw"

text \<open>
  The members of the class: \<open>this_dataset\<close> is \<^verbatim>\<open>this->dataset_\<close>, and likewise for
  \<^verbatim>\<open>barcodes_\<close>, \<^verbatim>\<open>landmarks_\<close> and \<^verbatim>\<open>robots_\<close> (a name cannot end in an underscore
  here). The three arrays have a fixed size in the source; here each is a list, whose
  length stands for the declared size of the array.
\<close>

record 'd DataExtractor =
  this_dataset :: string
  this_barcodes :: "int list"
  this_landmarks :: "'d Landmark list"
  this_robots :: "'d Robot list"

text \<open>
  The capacity constants come from the header, which is not part of the sources at hand;
  they are parameters of the model.
\<close>

record Capacity =
  TOTAL_BARCODES :: nat
  TOTAL_LANDMARKS :: nat
  TOTAL_ROBOTS :: nat

text \<open>
  The file system as the loaders see it: \<open>stat_ok\<close> says whether \<^verbatim>\<open>stat\<close> succeeds on a
  path, \<open>contents\<close> gives the lines that \<^verbatim>\<open>std::getline\<close> yields for a file that can be
  opened for reading, and \<open>writable\<close> says whether it can also be opened for writing
  (a \<^verbatim>\<open>std::fstream\<close> opens in both modes).
\<close>

record FileSystem =
  stat_ok :: "string \<Rightarrow> bool"
  contents :: "string \<Rightarrow> string list option"
  writable :: "string \<Rightarrow> bool"

definition open_ifstream :: "FileSystem \<Rightarrow> string \<Rightarrow> string list option" where
  "open_ifstream fs name = contents fs name"

definition open_fstream :: "FileSystem \<Rightarrow> string \<Rightarrow> string list option" where
  "open_fstream fs name = (if writable fs name then contents fs name else None)"

subsection \<open>Failures\<close>

text \<open>
  A loader that prints a diagnostic and returns \<^verbatim>\<open>false\<close> is tagged with the reason:
  \<open>DatasetNotSpecified\<close> (``Please specify a dataset''), \<open>FileNotFound\<close> (``Unable to
  open ... file''), \<open>CapacityExceeded\<close> (``total read ... exceeds TOTAL\_...'') and
  \<open>IntegrityError\<close> (``Barcodes not correctly set'').
\<close>

datatype failure = DatasetNotSpecified | FileNotFound | CapacityExceeded | IntegrityError

datatype loaded = Loaded | Failed failure

text \<open>
  Exceptions: \<open>InvalidArgument\<close> and \<open>OutOfRange\<close> are \<^verbatim>\<open>std::invalid_argument\<close> and
  \<^verbatim>\<open>std::out_of_range\<close>, thrown by \<^verbatim>\<open>std::stoi\<close>, \<^verbatim>\<open>std::stod\<close> and \<^verbatim>\<open>substr\<close> (the
  parse errors); the next three are the \<^verbatim>\<open>std::runtime_error\<close>s of the source, told apart
  by their message: \<open>PathNotFound\<close> (``Dataset file path does not exist''),
  \<open>ExtractionFailed\<close> (``Unable to extract data from dataset'') and
  \<open>UninitializedAccess\<close> (``Dataset has not been specified ...''). \<open>OutOfBounds\<close> is not
  an exception of the source: it marks a store into a slot that the list standing for an
  array does not have. The source guards every such store with the capacity constant, so
  the mark shows only for a list shorter than the capacity or for a robot index that
  \<^verbatim>\<open>setDataSet\<close> never passes, that is outside the runs of the program.
\<close>

datatype exn =
  InvalidArgument | OutOfRange | PathNotFound | ExtractionFailed | UninitializedAccess
  | OutOfBounds

datatype 'a outcome = Returns 'a | Throws exn

section \<open>The string operations used by the loaders\<close>

abbreviation TAB :: char where "TAB \<equiv> CHR 0x09"

abbreviation npos :: "nat option" where "npos \<equiv> None"

text \<open>\<^verbatim>\<open>line[0] == '#'\<close>; on an empty line \<^verbatim>\<open>line[0]\<close> is the terminating null.\<close>

definition is_comment :: "string \<Rightarrow> bool" where
  "is_comment line = (case line of [] \<Rightarrow> False | c # _ \<Rightarrow> c = CHR ''#'')"

text \<open>\<^verbatim>\<open>line.erase(std::remove(line.begin(), line.end(), ' '), line.end())\<close>\<close>

definition remove_spaces :: "string \<Rightarrow> string" where
  "remove_spaces line = filter (\<lambda>c. c \<noteq> CHR '' '') line"

text \<open>\<^verbatim>\<open>line.find(c, pos)\<close>: the first position at or after \<open>pos\<close> that holds \<open>c\<close>.\<close>

fun find_from :: "char \<Rightarrow> string \<Rightarrow> nat \<Rightarrow> nat option" where
  "find_from c [] k = npos"
| "find_from c (d # ds) k = (if c = d then Some k else find_from c ds (Suc k))"

definition find_char :: "string \<Rightarrow> char \<Rightarrow> nat \<Rightarrow> nat option" where
  "find_char line c pos = find_from c (drop pos line) pos"

text \<open>\<^verbatim>\<open>++end_index\<close> and \<^verbatim>\<open>end_index + 1\<close> on a \<^verbatim>\<open>size_t\<close>: \<^verbatim>\<open>npos\<close> wraps around to 0.\<close>

definition increment :: "nat option \<Rightarrow> nat" where
  "increment p = (case p of None \<Rightarrow> 0 | Some k \<Rightarrow> Suc k)"

text \<open>
  \<^verbatim>\<open>line.substr(pos, count)\<close>: throws \<^verbatim>\<open>std::out_of_range\<close> when \<open>pos\<close> is beyond the size,
  otherwise yields at most \<open>count\<close> characters from \<open>pos\<close> on.
\<close>

definition substr :: "string \<Rightarrow> nat option \<Rightarrow> nat option \<Rightarrow> exn + string" where
  "substr line pos count =
     (case pos of
        None \<Rightarrow> Inl OutOfRange
      | Some p \<Rightarrow>
          if p > length line then Inl OutOfRange
          else (case count of
                  None \<Rightarrow> Inr (drop p line)
                | Some n \<Rightarrow> Inr (take n (drop p line))))"

text \<open>The C locale's \<^verbatim>\<open>isspace\<close> and \<^verbatim>\<open>isdigit\<close>.\<close>

definition isspace :: "char \<Rightarrow> bool" where
  "isspace c = (c = CHR '' '' \<or> c = CHR 0x09 \<or> c = CHR 0x0A \<or> c = CHR 0x0B
                \<or> c = CHR 0x0C \<or> c = CHR 0x0D)"

definition isdigit :: "char \<Rightarrow> bool" where
  "isdigit c = (c \<in> set ''0123456789'')"

definition digit_value :: "char \<Rightarrow> nat" where
  "digit_value c = of_char c - 48"

definition decimal_value :: "string \<Rightarrow> nat" where
  "decimal_value ds = foldl (\<lambda>a c. 10 * a + digit_value c) 0 ds"

text \<open>An optional sign: whether it is a minus, and the rest.\<close>

definition read_sign :: "string \<Rightarrow> bool \<times> string" where
  "read_sign s =
     (case s of
        [] \<Rightarrow> (False, [])
      | c # cs \<Rightarrow>
          if c = CHR ''-'' then (True, cs)
          else if c = CHR ''+'' then (False, cs)
          else (False, s))"

text \<open>
  \<^verbatim>\<open>std::stoi(s)\<close>: skips leading white space, reads an optional sign and the longest run
  of decimal digits, and ignores what follows. It throws \<^verbatim>\<open>std::invalid_argument\<close> when
  there is no digit and \<^verbatim>\<open>std::out_of_range\<close> when the value is not an \<^verbatim>\<open>int\<close>.
\<close>

definition stoi :: "string \<Rightarrow> exn + int" where
  "stoi s =
     (let (neg, rest) = read_sign (dropWhile isspace s);
          ds = takeWhile isdigit rest
      in if ds = [] then Inl InvalidArgument
         else let v = (if neg then - int (decimal_value ds) else int (decimal_value ds))
              in if v < - 2147483648 \<or> 2147483647 < v then Inl OutOfRange else Inr v)"

subsection \<open>What \<^verbatim>\<open>strtod\<close> scans\<close>

text \<open>
  \<^verbatim>\<open>std::stod\<close> calls \<^verbatim>\<open>strtod\<close>, which skips leading white space, reads an optional sign
  and then the longest text of one of four forms: \<^verbatim>\<open>nan\<close> with an optional parenthesised
  payload, \<^verbatim>\<open>inf\<close> (or \<^verbatim>\<open>infinity\<close>), a hexadecimal number after \<^verbatim>\<open>0x\<close>, or a decimal
  number, the letters in either case. What follows is ignored. A number is scanned to the
  exact value of its text; its sign is kept apart, so that a negative zero is not lost.
\<close>

datatype scanned = Number bool real | Infinite bool | NotANumber bool string

definition ishex :: "char \<Rightarrow> bool" where
  "ishex c = (c \<in> set ''0123456789abcdefABCDEF'')"

definition hex_digit_value :: "char \<Rightarrow> nat" where
  "hex_digit_value c =
     (if isdigit c then digit_value c
      else if c \<in> set ''abcdef'' then of_char c - 87
      else of_char c - 55)"

definition hex_value :: "string \<Rightarrow> nat" where
  "hex_value ds = foldl (\<lambda>a c. 16 * a + hex_digit_value c) 0 ds"

text \<open>
  The exponent part after the digits: one of the two marker letters, an optional sign,
  at least one decimal digit. It counts as 0 when it is absent or has no digit.
\<close>

definition read_exponent :: "char \<Rightarrow> char \<Rightarrow> string \<Rightarrow> int" where
  "read_exponent lower upper s =
     (case s of
        [] \<Rightarrow> 0
      | c # cs \<Rightarrow>
          if c = lower \<or> c = upper then
            (let (neg, rest) = read_sign cs;
                 ds = takeWhile isdigit rest
             in if ds = [] then 0
                else if neg then - int (decimal_value ds) else int (decimal_value ds))
          else 0)"

text \<open>\<open>scale b m e\<close> is \<open>m\<close> times \<open>b\<close> to the power \<open>e\<close>.\<close>

definition scale :: "real \<Rightarrow> real \<Rightarrow> int \<Rightarrow> real" where
  "scale b m e = (if 0 \<le> e then m * b ^ nat e else m / b ^ nat (- e))"

text \<open>
  Decimal digits with an optional point and at least one digit, then an optional
  exponent of ten.
\<close>

definition scan_decimal :: "string \<Rightarrow> real option" where
  "scan_decimal s =
     (let ip = takeWhile isdigit s;
          r1 = dropWhile isdigit s;
          (fr, r2) = (case r1 of
                        [] \<Rightarrow> ([], r1)
                      | c # cs \<Rightarrow>
                          if c = CHR ''.'' then (takeWhile isdigit cs, dropWhile isdigit cs)
                          else ([], r1))
      in if ip = [] \<and> fr = [] then None
         else Some (scale 10 (real (decimal_value (ip @ fr)) / 10 ^ length fr)
                      (read_exponent (CHR ''e'') (CHR ''E'') r2)))"

text \<open>
  After \<^verbatim>\<open>0x\<close>: hexadecimal digits with an optional point and at least one digit, then
  an optional exponent of two, written in decimal after \<^verbatim>\<open>p\<close>. Without a digit after
  \<^verbatim>\<open>0x\<close> the text is no hexadecimal number, and the decimal scan reads its leading 0.
\<close>

definition scan_hex :: "string \<Rightarrow> real option" where
  "scan_hex s =
     (case s of
        c0 # cx # rest \<Rightarrow>
          if c0 = CHR ''0'' \<and> (cx = CHR ''x'' \<or> cx = CHR ''X'') then
            (let hi = takeWhile ishex rest;
                 r1 = dropWhile ishex rest;
                 (hf, r2) = (case r1 of
                               [] \<Rightarrow> ([], r1)
                             | c # cs \<Rightarrow>
                                 if c = CHR ''.'' then (takeWhile ishex cs, dropWhile ishex cs)
                                 else ([], r1))
             in if hi = [] \<and> hf = [] then None
                else Some (scale 2 (real (hex_value (hi @ hf)) / 16 ^ length hf)
                             (read_exponent (CHR ''p'') (CHR ''P'') r2)))
          else None
      | _ \<Rightarrow> None)"

text \<open>A word in either case at the start of the text; the result is what follows it.\<close>

fun match_word :: "(char \<times> char) list \<Rightarrow> string \<Rightarrow> string option" where
  "match_word [] s = Some s"
| "match_word (p # ps) [] = None"
| "match_word (p # ps) (c # cs) =
     (if c = fst p \<or> c = snd p then match_word ps cs else None)"

text \<open>The payload of a \<^verbatim>\<open>nan\<close>: digits, letters and underscores between parentheses.\<close>

definition is_nchar :: "char \<Rightarrow> bool" where
  "is_nchar c =
     (isdigit c \<or> c = CHR ''_''
      \<or> c \<in> set ''abcdefghijklmnopqrstuvwxyzABCDEFGHIJKLMNOPQRSTUVWXYZ'')"

definition nan_payload :: "string \<Rightarrow> string" where
  "nan_payload s =
     (case s of
        [] \<Rightarrow> []
      | c # cs \<Rightarrow>
          if c = CHR ''('' then
            (case dropWhile is_nchar cs of
               [] \<Rightarrow> []
             | d # _ \<Rightarrow> if d = CHR '')'' then takeWhile is_nchar cs else [])
          else [])"

definition scan_double :: "string \<Rightarrow> scanned option" where
  "scan_double s =
     (let (neg, rest) = read_sign (dropWhile isspace s)
      in case match_word (zip ''nan'' ''NAN'') rest of
           Some after \<Rightarrow> Some (NotANumber neg (nan_payload after))
         | None \<Rightarrow>
        (case match_word (zip ''inf'' ''INF'') rest of
           Some after \<Rightarrow> Some (Infinite neg)
         | None \<Rightarrow>
        (case scan_hex rest of
           Some m \<Rightarrow> Some (Number neg m)
         | None \<Rightarrow>
        (case scan_decimal rest of
           Some m \<Rightarrow> Some (Number neg m)
         | None \<Rightarrow> None))))"

subsection \<open>The platform\<close>

text \<open>
  What the source leaves to the platform it runs on:
  \<^item> \<open>of_scanned\<close>: the \<^verbatim>\<open>double\<close> that \<^verbatim>\<open>strtod\<close> makes of what it scanned, or the
    \<^verbatim>\<open>std::out_of_range\<close> that \<^verbatim>\<open>std::stod\<close> throws when \<^verbatim>\<open>strtod\<close> reports a range error;
  \<^item> \<open>of_literal\<close>: the \<^verbatim>\<open>double\<close> that a literal of the source, such as \<^verbatim>\<open>0.05\<close>, denotes;
  \<^item> \<open>d_minus\<close>, \<open>d_plus\<close>, \<open>d_ge\<close>, \<open>d_le\<close>: the operators \<^verbatim>\<open>-\<close>, \<^verbatim>\<open>+\<close>, \<^verbatim>\<open>>=\<close> and
    \<^verbatim>\<open><=\<close> on \<^verbatim>\<open>double\<close>;
  \<^item> \<open>beyond\<close>: the \<^verbatim>\<open>int\<close> that a read of \<^verbatim>\<open>barcodes_\<close> at an index outside the array
    yields. C++ leaves that read undefined; a compiled program reads the memory beside
    the array and goes on with what it finds there.

  They are parameters of the model, so a theorem about a loader holds for every platform.
  The \<open>binary64\<close> platform of the examples below is the one of IEEE 754 arithmetic.
\<close>

record 'd Platform =
  of_scanned :: "scanned \<Rightarrow> exn + 'd"
  of_literal :: "real \<Rightarrow> 'd"
  d_minus :: "'d \<Rightarrow> 'd \<Rightarrow> 'd"
  d_plus :: "'d \<Rightarrow> 'd \<Rightarrow> 'd"
  d_ge :: "'d \<Rightarrow> 'd \<Rightarrow> bool"
  d_le :: "'d \<Rightarrow> 'd \<Rightarrow> bool"
  beyond :: "int \<Rightarrow> int"

text \<open>
  \<^verbatim>\<open>std::stod(s)\<close>: throws \<^verbatim>\<open>std::invalid_argument\<close> when \<^verbatim>\<open>strtod\<close> finds nothing to
  convert.
\<close>

definition stod :: "'d Platform \<Rightarrow> string \<Rightarrow> exn + 'd" where
  "stod fp s =
     (case scan_double s of None \<Rightarrow> Inl InvalidArgument | Some v \<Rightarrow> of_scanned fp v)"

text \<open>\<^verbatim>\<open>std::stoi(line.substr(start_index, end_index))\<close> and its \<^verbatim>\<open>std::stod\<close> twin.\<close>

definition int_field :: "string \<Rightarrow> nat option \<Rightarrow> nat option \<Rightarrow> exn + int" where
  "int_field line start_index end_index =
     (case substr line start_index end_index of Inl e \<Rightarrow> Inl e | Inr s \<Rightarrow> stoi s)"

definition double_field ::
  "'d Platform \<Rightarrow> string \<Rightarrow> nat option \<Rightarrow> nat option \<Rightarrow> exn + 'd" where
  "double_field fp line start_index end_index =
     (case substr line start_index end_index of Inl e \<Rightarrow> Inl e | Inr s \<Rightarrow> stod fp s)"

text \<open>\<^verbatim>\<open>std::to_string\<close> on an \<^verbatim>\<open>int\<close>.\<close>

fun digits_of :: "nat \<Rightarrow> string" where
  "digits_of n =
     (if n < 10 then [''0123456789'' ! n]
      else digits_of (n div 10) @ [''0123456789'' ! (n mod 10)])"

declare digits_of.simps [simp del]

definition to_string :: "int \<Rightarrow> string" where
  "to_string n = (if n < 0 then CHR ''-'' # digits_of (nat (- n)) else digits_of (nat n))"

section \<open>The loaders\<close>

text \<open>The file names, built from the dataset folder and the 1-based robot number.\<close>

definition barcodes_file :: "string \<Rightarrow> string" where
  "barcodes_file dataset = dataset @ ''/Barcodes.dat''"

definition landmarks_file :: "string \<Rightarrow> string" where
  "landmarks_file dataset = dataset @ ''/Landmark_Groundtruth.dat''"

definition groundtruth_file :: "string \<Rightarrow> nat \<Rightarrow> string" where
  "groundtruth_file dataset robot_id =
     dataset @ ''/Robot'' @ to_string (int robot_id + 1) @ ''_Groundtruth.dat''"

definition odometry_file :: "string \<Rightarrow> nat \<Rightarrow> string" where
  "odometry_file dataset robot_id =
     dataset @ ''/Robot'' @ to_string (int robot_id + 1) @ ''_Odometry.dat''"

definition measurement_file :: "string \<Rightarrow> nat \<Rightarrow> string" where
  "measurement_file dataset robot_id =
     dataset @ ''/Robot'' @ to_string (int robot_id + 1) @ ''_Measurement.dat''"

subsection \<open>\<^verbatim>\<open>readBarcodes\<close>\<close>

text \<open>\<^verbatim>\<open>std::stoi(line.substr(line.find('\t', 0)))\<close>\<close>

definition barcode_field :: "string \<Rightarrow> exn + int" where
  "barcode_field line = int_field line (find_char line TAB 0) npos"

text \<open>The \<^verbatim>\<open>while (std::getline(file, line))\<close> loop, with the counter \<open>i\<close>.\<close>

fun barcodes_loop :: "nat \<Rightarrow> string list \<Rightarrow> nat \<Rightarrow> int list \<Rightarrow> loaded outcome \<times> int list" where
  "barcodes_loop cap [] i bs = (Returns Loaded, bs)"
| "barcodes_loop cap (l # ls) i bs =
     (if is_comment l then barcodes_loop cap ls i bs
      else let line = remove_spaces l
           in if i \<ge> cap then (Returns (Failed CapacityExceeded), bs)
              else (case barcode_field line of
                      Inl e \<Rightarrow> (Throws e, bs)
                    | Inr v \<Rightarrow>
                        if i < length bs then barcodes_loop cap ls (Suc i) (bs[i := v])
                        else (Throws OutOfBounds, bs)))"

definition readBarcodes ::
  "Capacity \<Rightarrow> FileSystem \<Rightarrow> string \<Rightarrow> 'd DataExtractor
     \<Rightarrow> loaded outcome \<times> 'd DataExtractor" where
  "readBarcodes cap fs dataset ex =
     (if this_dataset ex = [] then (Returns (Failed DatasetNotSpecified), ex)
      else (case open_ifstream fs (barcodes_file dataset) of
              None \<Rightarrow> (Returns (Failed FileNotFound), ex)
            | Some ls \<Rightarrow>
                (case barcodes_loop (TOTAL_BARCODES cap) ls 0 (this_barcodes ex) of
                   (r, bs) \<Rightarrow> (r, ex\<lparr>this_barcodes := bs\<rparr>))))"

subsection \<open>\<^verbatim>\<open>readLandmarks\<close>\<close>

text \<open>
  \<^verbatim>\<open>barcodes_[j]\<close> as the source reads it, with no check of \<open>j\<close>: inside the array it is
  the entry, outside it is whatever the platform finds there.
\<close>

definition barcode_at :: "'d Platform \<Rightarrow> int list \<Rightarrow> int \<Rightarrow> int" where
  "barcode_at fp bs j = (if 0 \<le> j \<and> j < int (length bs) then bs ! nat j else beyond fp j)"

text \<open>
  One pass of the loop body after the capacity check, on the line with its spaces
  removed. Each field is stored into \<^verbatim>\<open>landmarks_[i]\<close> as soon as it is parsed, so a row
  that fails half way leaves the fields parsed so far in the table.
\<close>

definition landmark_row ::
  "'d Platform \<Rightarrow> int list \<Rightarrow> string \<Rightarrow> nat \<Rightarrow> 'd Landmark list
     \<Rightarrow> loaded outcome \<times> 'd Landmark list" where
  "landmark_row fp bs line i lms =
     (let end1 = find_char line TAB 0 in
      case int_field line (Some 0) end1 of
        Inl e \<Rightarrow> (Throws e, lms)
      | Inr k \<Rightarrow>
      if \<not> i < length lms then (Throws OutOfBounds, lms) else
      let lms1 = lms[i := (lms ! i)\<lparr>id := k\<rparr>] in
      if barcode_at fp bs (k - 1) = 0 then (Returns (Failed IntegrityError), lms1) else
      let lms2 = lms1[i := (lms1 ! i)\<lparr>barcode := barcode_at fp bs (k - 1)\<rparr>];
          end2 = find_char line TAB (increment end1) in
      case double_field fp line end1 end2 of
        Inl e \<Rightarrow> (Throws e, lms2)
      | Inr xv \<Rightarrow>
      let lms3 = lms2[i := (lms2 ! i)\<lparr>x := xv\<rparr>];
          end3 = find_char line TAB (increment end2) in
      case double_field fp line end2 end3 of
        Inl e \<Rightarrow> (Throws e, lms3)
      | Inr yv \<Rightarrow>
      let lms4 = lms3[i := (lms3 ! i)\<lparr>y := yv\<rparr>];
          end4 = find_char line TAB (increment end3) in
      case double_field fp line end3 end4 of
        Inl e \<Rightarrow> (Throws e, lms4)
      | Inr xs \<Rightarrow>
      let lms5 = lms4[i := (lms4 ! i)\<lparr>x_std_dev := xs\<rparr>];
          end5 = find_char line TAB (increment end4) in
      case double_field fp line end4 end5 of
        Inl e \<Rightarrow> (Throws e, lms5)
      | Inr ys \<Rightarrow> (Returns Loaded, lms5[i := (lms5 ! i)\<lparr>y_std_dev := ys\<rparr>]))"

fun landmarks_loop ::
  "'d Platform \<Rightarrow> nat \<Rightarrow> int list \<Rightarrow> string list \<Rightarrow> nat \<Rightarrow> 'd Landmark list
     \<Rightarrow> loaded outcome \<times> 'd Landmark list" where
  "landmarks_loop fp cap bs [] i lms = (Returns Loaded, lms)"
| "landmarks_loop fp cap bs (l # ls) i lms =
     (if is_comment l then landmarks_loop fp cap bs ls i lms
      else let line = remove_spaces l
           in if i \<ge> cap then (Returns (Failed CapacityExceeded), lms)
              else (case landmark_row fp bs line i lms of
                      (Returns Loaded, lms') \<Rightarrow> landmarks_loop fp cap bs ls (Suc i) lms'
                    | (r, lms') \<Rightarrow> (r, lms')))"

definition readLandmarks ::
  "'d Platform \<Rightarrow> Capacity \<Rightarrow> FileSystem \<Rightarrow> string \<Rightarrow> 'd DataExtractor
     \<Rightarrow> loaded outcome \<times> 'd DataExtractor" where
  "readLandmarks fp cap fs dataset ex =
     (case open_ifstream fs (landmarks_file dataset) of
        None \<Rightarrow> (Returns (Failed FileNotFound), ex)
      | Some ls \<Rightarrow>
          (case landmarks_loop fp (TOTAL_LANDMARKS cap) (this_barcodes ex) ls 0 (this_landmarks ex) of
             (r, lms) \<Rightarrow> (r, ex\<lparr>this_landmarks := lms\<rparr>)))"

subsection \<open>\<^verbatim>\<open>readGroundTruth\<close>\<close>

text \<open>
  Modelled from the spec: the constructor \<^verbatim>\<open>Groundtruth(time, x, y, orientation)\<close> of the
  header stores its four arguments (``each parsed row appended verbatim'').
\<close>

definition new_Groundtruth :: "'d \<Rightarrow> 'd \<Rightarrow> 'd \<Rightarrow> 'd \<Rightarrow> 'd Groundtruth" where
  "new_Groundtruth t x_coordinate y_coordinate orientation =
     \<lparr>gt_time = t, gt_x = x_coordinate, gt_y = y_coordinate, gt_orientation = orientation\<rparr>"

definition groundtruth_row :: "'d Platform \<Rightarrow> string \<Rightarrow> exn + 'd Groundtruth" where
  "groundtruth_row fp line =
     (let end1 = find_char line TAB 0 in
      case double_field fp line (Some 0) end1 of
        Inl e \<Rightarrow> Inl e
      | Inr t \<Rightarrow>
      let end2 = find_char line TAB (increment end1) in
      case double_field fp line end1 end2 of
        Inl e \<Rightarrow> Inl e
      | Inr x_coordinate \<Rightarrow>
      let end3 = find_char line TAB (increment end2) in
      case double_field fp line end2 end3 of
        Inl e \<Rightarrow> Inl e
      | Inr y_coordinate \<Rightarrow>
      let end4 = find_char line TAB (increment end3) in
      case double_field fp line end3 end4 of
        Inl e \<Rightarrow> Inl e
      | Inr orientation \<Rightarrow> Inr (new_Groundtruth t x_coordinate y_coordinate orientation))"

fun groundtruth_loop ::
  "'d Platform \<Rightarrow> string list \<Rightarrow> 'd Groundtruth list
     \<Rightarrow> loaded outcome \<times> 'd Groundtruth list" where
  "groundtruth_loop fp [] gts = (Returns Loaded, gts)"
| "groundtruth_loop fp (l # ls) gts =
     (if is_comment l then groundtruth_loop fp ls gts
      else (case groundtruth_row fp (remove_spaces l) of
              Inl e \<Rightarrow> (Throws e, gts)
            | Inr g \<Rightarrow> groundtruth_loop fp ls (gts @ [g])))"

text \<open>Storing into \<^verbatim>\<open>robots_[robot_id].raw\<close>.\<close>

definition set_ground_truth ::
  "nat \<Rightarrow> 'd Groundtruth list \<Rightarrow> 'd DataExtractor \<Rightarrow> 'd DataExtractor" where
  "set_ground_truth robot_id gts ex =
     ex\<lparr>this_robots := (this_robots ex)[robot_id :=
          (this_robots ex ! robot_id)\<lparr>raw := (raw (this_robots ex ! robot_id))\<lparr>ground_truth := gts\<rparr>\<rparr>]\<rparr>"

definition set_odometry ::
  "nat \<Rightarrow> 'd Odometry list \<Rightarrow> 'd DataExtractor \<Rightarrow> 'd DataExtractor" where
  "set_odometry robot_id ods ex =
     ex\<lparr>this_robots := (this_robots ex)[robot_id :=
          (this_robots ex ! robot_id)\<lparr>raw := (raw (this_robots ex ! robot_id))\<lparr>odometry := ods\<rparr>\<rparr>]\<rparr>"

definition set_measurements ::
  "nat \<Rightarrow> 'd Measurement list \<Rightarrow> 'd DataExtractor \<Rightarrow> 'd DataExtractor" where
  "set_measurements robot_id ms ex =
     ex\<lparr>this_robots := (this_robots ex)[robot_id :=
          (this_robots ex ! robot_id)\<lparr>raw := (raw (this_robots ex ! robot_id))\<lparr>measurements := ms\<rparr>\<rparr>]\<rparr>"

definition readGroundTruth ::
  "'d Platform \<Rightarrow> FileSystem \<Rightarrow> string \<Rightarrow> nat \<Rightarrow> 'd DataExtractor
     \<Rightarrow> loaded outcome \<times> 'd DataExtractor" where
  "readGroundTruth fp fs dataset robot_id ex =
     (if \<not> robot_id < length (this_robots ex) then (Throws OutOfBounds, ex)
      else let ex1 = set_ground_truth robot_id [] ex
           in (case open_ifstream fs (groundtruth_file dataset robot_id) of
                 None \<Rightarrow> (Returns (Failed FileNotFound), ex1)
               | Some ls \<Rightarrow>
                   (case groundtruth_loop fp ls [] of
                      (r, gts) \<Rightarrow> (r, set_ground_truth robot_id gts ex1))))"

subsection \<open>\<^verbatim>\<open>readOdometry\<close>\<close>

text \<open>
  Modelled from the spec: the constructor
  \<^verbatim>\<open>Odometry(time, forward_velocity, angular_velocity)\<close> of the header stores its three
  arguments (``appended verbatim'').
\<close>

definition new_Odometry :: "'d \<Rightarrow> 'd \<Rightarrow> 'd \<Rightarrow> 'd Odometry" where
  "new_Odometry t fv av = \<lparr>od_time = t, forward_velocity = fv, angular_velocity = av\<rparr>"

definition odometry_row :: "'d Platform \<Rightarrow> string \<Rightarrow> exn + 'd Odometry" where
  "odometry_row fp line =
     (let end1 = find_char line TAB 0 in
      case double_field fp line (Some 0) end1 of
        Inl e \<Rightarrow> Inl e
      | Inr t \<Rightarrow>
      let end2 = find_char line TAB (increment end1) in
      case double_field fp line end1 end2 of
        Inl e \<Rightarrow> Inl e
      | Inr fv \<Rightarrow>
      let end3 = find_char line TAB (increment end2) in
      case double_field fp line end2 end3 of
        Inl e \<Rightarrow> Inl e
      | Inr av \<Rightarrow> Inr (new_Odometry t fv av))"

fun odometry_loop ::
  "'d Platform \<Rightarrow> string list \<Rightarrow> 'd Odometry list \<Rightarrow> loaded outcome \<times> 'd Odometry list" where
  "odometry_loop fp [] ods = (Returns Loaded, ods)"
| "odometry_loop fp (l # ls) ods =
     (if is_comment l then odometry_loop fp ls ods
      else (case odometry_row fp (remove_spaces l) of
              Inl e \<Rightarrow> (Throws e, ods)
            | Inr od \<Rightarrow> odometry_loop fp ls (ods @ [od])))"

definition readOdometry ::
  "'d Platform \<Rightarrow> FileSystem \<Rightarrow> string \<Rightarrow> nat \<Rightarrow> 'd DataExtractor
     \<Rightarrow> loaded outcome \<times> 'd DataExtractor" where
  "readOdometry fp fs dataset robot_id ex =
     (if \<not> robot_id < length (this_robots ex) then (Throws OutOfBounds, ex)
      else let ex1 = set_odometry robot_id [] ex
           in (case open_fstream fs (odometry_file dataset robot_id) of
                 None \<Rightarrow> (Returns (Failed FileNotFound), ex1)
               | Some ls \<Rightarrow>
                   (case odometry_loop fp ls [] of
                      (r, ods) \<Rightarrow> (r, set_odometry robot_id ods ex1))))"

subsection \<open>\<^verbatim>\<open>readMeasurements\<close>\<close>

text \<open>The four columns of a measurement line: time, subject, range, bearing.\<close>

definition measurement_row :: "'d Platform \<Rightarrow> string \<Rightarrow> exn + 'd \<times> int \<times> 'd \<times> 'd" where
  "measurement_row fp line =
     (let end1 = find_char line TAB 0 in
      case double_field fp line (Some 0) end1 of
        Inl e \<Rightarrow> Inl e
      | Inr t \<Rightarrow>
      let end2 = find_char line TAB (increment end1) in
      case int_field line end1 end2 of
        Inl e \<Rightarrow> Inl e
      | Inr subject \<Rightarrow>
      let end3 = find_char line TAB (increment end2) in
      case double_field fp line end2 end3 of
        Inl e \<Rightarrow> Inl e
      | Inr rng \<Rightarrow>
      let end4 = find_char line TAB (increment end3) in
      case double_field fp line end3 end4 of
        Inl e \<Rightarrow> Inl e
      | Inr bearing \<Rightarrow> Inr (t, subject, rng, bearing))"

text \<open>
  The predicate of the \<^verbatim>\<open>std::find_if\<close> call:
  \<^verbatim>\<open>index.time >= time - 0.05 && index.time <= time + 0.05\<close>, in the arithmetic of the
  platform.
\<close>

definition within_window :: "'d Platform \<Rightarrow> 'd \<Rightarrow> 'd Measurement \<Rightarrow> bool" where
  "within_window fp t index =
     (d_ge fp (time index) (d_minus fp t (of_literal fp 0.05))
      \<and> d_le fp (time index) (d_plus fp t (of_literal fp 0.05)))"

text \<open>
  \<^verbatim>\<open>std::find_if\<close> as the position of the first element that satisfies the predicate;
  the length of the list stands for \<^verbatim>\<open>end()\<close>.
\<close>

fun find_if :: "('a \<Rightarrow> bool) \<Rightarrow> 'a list \<Rightarrow> nat" where
  "find_if P [] = 0"
| "find_if P (a # as) = (if P a then 0 else Suc (find_if P as))"

text \<open>
  Modelled from the spec: the constructor \<^verbatim>\<open>Measurement(time, subject, range, bearing)\<close>
  of the header makes ``a new Measurement Record with this reading as its sole entry''.
\<close>

definition new_Measurement :: "'d \<Rightarrow> int \<Rightarrow> 'd \<Rightarrow> 'd \<Rightarrow> 'd Measurement" where
  "new_Measurement t subject rng bearing =
     \<lparr>time = t, subjects = [subject], ranges = [rng], bearings = [bearing]\<rparr>"

text \<open>
  Lines 301 to 314: the reading goes into the record found, or into a new record pushed
  at the back.
\<close>

definition add_reading ::
  "'d Platform \<Rightarrow> 'd Measurement list \<Rightarrow> 'd \<times> int \<times> 'd \<times> 'd \<Rightarrow> 'd Measurement list" where
  "add_reading fp ms row =
     (case row of (t, subject, rng, bearing) \<Rightarrow>
        let iterator = find_if (within_window fp t) ms
        in if iterator \<noteq> length ms then
             ms[iterator := (ms ! iterator)
                  \<lparr>subjects := subjects (ms ! iterator) @ [subject],
                   ranges := ranges (ms ! iterator) @ [rng],
                   bearings := bearings (ms ! iterator) @ [bearing]\<rparr>]
           else ms @ [new_Measurement t subject rng bearing])"

fun measurements_loop ::
  "'d Platform \<Rightarrow> string list \<Rightarrow> 'd Measurement list
     \<Rightarrow> loaded outcome \<times> 'd Measurement list" where
  "measurements_loop fp [] ms = (Returns Loaded, ms)"
| "measurements_loop fp (l # ls) ms =
     (if is_comment l then measurements_loop fp ls ms
      else (case measurement_row fp (remove_spaces l) of
              Inl e \<Rightarrow> (Throws e, ms)
            | Inr row \<Rightarrow> measurements_loop fp ls (add_reading fp ms row)))"

definition readMeasurements ::
  "'d Platform \<Rightarrow> FileSystem \<Rightarrow> string \<Rightarrow> nat \<Rightarrow> 'd DataExtractor
     \<Rightarrow> loaded outcome \<times> 'd DataExtractor" where
  "readMeasurements fp fs dataset robot_id ex =
     (if \<not> robot_id < length (this_robots ex) then (Throws OutOfBounds, ex)
      else let ex1 = set_measurements robot_id [] ex
           in (case open_fstream fs (measurement_file dataset robot_id) of
                 None \<Rightarrow> (Returns (Failed FileNotFound), ex1)
               | Some ls \<Rightarrow>
                   (case measurements_loop fp ls [] of
                      (r, ms) \<Rightarrow> (r, set_measurements robot_id ms ex1))))"

subsection \<open>\<^verbatim>\<open>setDataSet\<close> and the accessors\<close>

text \<open>
  The \<^verbatim>\<open>for\<close> loop over the robots, on the list of the indices still to visit. The three
  flags are \<^verbatim>\<open>groundtruth_correct\<close>, \<^verbatim>\<open>odometry_correct\<close> and \<^verbatim>\<open>measurement_correct\<close>.
\<close>

fun robots_loop ::
  "'d Platform \<Rightarrow> FileSystem \<Rightarrow> string \<Rightarrow> nat list \<Rightarrow> bool \<times> bool \<times> bool
     \<Rightarrow> 'd DataExtractor
     \<Rightarrow> (bool \<times> bool \<times> bool) outcome \<times> 'd DataExtractor" where
  "robots_loop fp fs dataset [] flags ex = (Returns flags, ex)"
| "robots_loop fp fs dataset (i # is) (g, od, m) ex =
     (case readGroundTruth fp fs dataset i ex of
        (Throws e, ex1) \<Rightarrow> (Throws e, ex1)
      | (Returns rg, ex1) \<Rightarrow>
     (case readOdometry fp fs dataset i ex1 of
        (Throws e, ex2) \<Rightarrow> (Throws e, ex2)
      | (Returns ro, ex2) \<Rightarrow>
     (case readMeasurements fp fs dataset i ex2 of
        (Throws e, ex3) \<Rightarrow> (Throws e, ex3)
      | (Returns rm, ex3) \<Rightarrow>
          robots_loop fp fs dataset is
            (g \<and> rg = Loaded, od \<and> ro = Loaded, m \<and> rm = Loaded) ex3)))"

text \<open>
  \<^verbatim>\<open>stat\<close> fails on the empty path, whatever the file system holds. An exception of a
  loader is not caught, so it leaves \<^verbatim>\<open>setDataSet\<close> at once.
\<close>

definition setDataSet ::
  "'d Platform \<Rightarrow> Capacity \<Rightarrow> FileSystem \<Rightarrow> string \<Rightarrow> 'd DataExtractor
     \<Rightarrow> unit outcome \<times> 'd DataExtractor" where
  "setDataSet fp cap fs dataset ex =
     (if \<not> (dataset \<noteq> [] \<and> stat_ok fs dataset) then (Throws PathNotFound, ex)
      else let ex0 = ex\<lparr>this_dataset := dataset\<rparr> in
      case readBarcodes cap fs dataset ex0 of
        (Throws e, ex1) \<Rightarrow> (Throws e, ex1)
      | (Returns barcodes_correct, ex1) \<Rightarrow>
     (case readLandmarks fp cap fs dataset ex1 of
        (Throws e, ex2) \<Rightarrow> (Throws e, ex2)
      | (Returns landmarks_correct, ex2) \<Rightarrow>
     (case robots_loop fp fs dataset [0..<TOTAL_ROBOTS cap] (True, True, True) ex2 of
        (Throws e, ex3) \<Rightarrow> (Throws e, ex3)
      | (Returns (groundtruth_correct, odometry_correct, measurement_correct), ex3) \<Rightarrow>
          if barcodes_correct = Loaded \<and> landmarks_correct = Loaded \<and> groundtruth_correct
             \<and> odometry_correct \<and> measurement_correct
          then (Returns (), ex3)
          else (Throws ExtractionFailed, ex3))))"

definition getBarcodes :: "'d DataExtractor \<Rightarrow> int list outcome" where
  "getBarcodes ex =
     (if this_dataset ex = [] then Throws UninitializedAccess else Returns (this_barcodes ex))"

definition getLandmarks :: "'d DataExtractor \<Rightarrow> 'd Landmark list outcome" where
  "getLandmarks ex =
     (if this_dataset ex = [] then Throws UninitializedAccess else Returns (this_landmarks ex))"

definition getRobots :: "'d DataExtractor \<Rightarrow> 'd Robot list outcome" where
  "getRobots ex =
     (if this_dataset ex = [] then Throws UninitializedAccess else Returns (this_robots ex))"

section \<open>The binary64 platform\<close>

text \<open>
  The platform of the examples: \<^verbatim>\<open>double\<close> is IEEE 754 binary64 with rounding to
  nearest, ties to even. A number is its exact value, an infinity carries its sign
  (\<open>True\<close> for the negative one); the two zeros are not told apart, which no operation
  used by the source does either.
\<close>

datatype b64 = Fnum real | Finf bool | Fnan

definition pow2 :: "int \<Rightarrow> real" where
  "pow2 e = scale 2 1 e"

text \<open>
  The binade of a positive \<open>v\<close>: the exponent \<open>e\<close> with \<open>pow2 e \<le> v < pow2 (e + 1)\<close>, found
  by halving or doubling, and kept between -1022 (below, the numbers are subnormal and
  keep the spacing of that binade) and 1024.
\<close>

fun halvings :: "nat \<Rightarrow> real \<Rightarrow> int" where
  "halvings 0 v = 0"
| "halvings (Suc n) v = (if 2 \<le> v then 1 + halvings n (v / 2) else 0)"

fun doublings :: "nat \<Rightarrow> real \<Rightarrow> int" where
  "doublings 0 v = 0"
| "doublings (Suc n) v = (if v < 1 then 1 + doublings n (2 * v) else 0)"

definition binade :: "real \<Rightarrow> int" where
  "binade v = (if 1 \<le> v then halvings 1024 v else - doublings 1022 v)"

text \<open>The nearest integer, the even one of two that are equally near.\<close>

definition round_even :: "real \<Rightarrow> int" where
  "round_even q =
     (let f = \<lfloor>q\<rfloor>; d = q - of_int f
      in if d < 1 / 2 then f else if 1 / 2 < d then f + 1 else if even f then f else f + 1)"

text \<open>The nearest multiple of the spacing of the binade, that spacing being 53 bits wide.\<close>

definition round64 :: "real \<Rightarrow> real" where
  "round64 v =
     (if v = 0 then 0
      else let u = pow2 (binade \<bar>v\<bar> - 52) in of_int (round_even (v / u)) * u)"

text \<open>The result of an operation: the rounded value, or an infinity when it overflows.\<close>

definition b64_round :: "real \<Rightarrow> b64" where
  "b64_round v = (if 2 ^ 1024 \<le> \<bar>round64 v\<bar> then Finf (v < 0) else Fnum (round64 v))"

text \<open>
  \<^verbatim>\<open>strtod\<close> followed by the range check of \<^verbatim>\<open>std::stod\<close>: a range error is reported on
  overflow, and for a value below the normal range that is not a \<^verbatim>\<open>double\<close> exactly.
\<close>

definition b64_checked :: "real \<Rightarrow> exn + b64" where
  "b64_checked v =
     (if 2 ^ 1024 \<le> \<bar>round64 v\<bar> then Inl OutOfRange
      else if \<bar>v\<bar> < pow2 (- 1022) \<and> round64 v \<noteq> v then Inl OutOfRange
      else Inr (Fnum (round64 v)))"

fun b64_of_scanned :: "scanned \<Rightarrow> exn + b64" where
  "b64_of_scanned (Number neg m) = b64_checked (if neg then - m else m)"
| "b64_of_scanned (Infinite neg) = Inr (Finf neg)"
| "b64_of_scanned (NotANumber neg payload) = Inr Fnan"

fun b64_negate :: "b64 \<Rightarrow> b64" where
  "b64_negate (Fnum a) = Fnum (- a)"
| "b64_negate (Finf s) = Finf (\<not> s)"
| "b64_negate Fnan = Fnan"

fun b64_plus :: "b64 \<Rightarrow> b64 \<Rightarrow> b64" where
  "b64_plus (Fnum a) (Fnum b) = b64_round (a + b)"
| "b64_plus (Fnum a) (Finf s) = Finf s"
| "b64_plus (Finf s) (Fnum b) = Finf s"
| "b64_plus (Finf s) (Finf t) = (if s = t then Finf s else Fnan)"
| "b64_plus Fnan b = Fnan"
| "b64_plus a Fnan = Fnan"

definition b64_minus :: "b64 \<Rightarrow> b64 \<Rightarrow> b64" where
  "b64_minus a b = b64_plus a (b64_negate b)"

text \<open>A comparison with a not-a-number is false.\<close>

fun b64_le :: "b64 \<Rightarrow> b64 \<Rightarrow> bool" where
  "b64_le (Fnum a) (Fnum b) = (a \<le> b)"
| "b64_le (Fnum a) (Finf s) = (\<not> s)"
| "b64_le (Finf s) (Fnum b) = s"
| "b64_le (Finf s) (Finf t) = (s \<or> \<not> t)"
| "b64_le Fnan b = False"
| "b64_le a Fnan = False"

text \<open>
  On this platform the memory beside the barcode table is taken to hold zeros; \<open>crowded\<close>
  is the same platform with 14 in every word beside the table.
\<close>

definition binary64 :: "b64 Platform" where
  "binary64 =
     \<lparr>of_scanned = b64_of_scanned, of_literal = b64_round,
      d_minus = b64_minus, d_plus = b64_plus,
      d_ge = (\<lambda>a b. b64_le b a), d_le = b64_le,
      beyond = (\<lambda>j. 0)\<rparr>"

definition crowded :: "b64 Platform" where
  "crowded = binary64\<lparr>beyond := (\<lambda>j. 14)\<rparr>"

text \<open>The \<^verbatim>\<open>double\<close> written as a decimal number.\<close>

definition dbl :: "real \<Rightarrow> b64" where
  "dbl v = b64_round v"

section \<open>Example data\<close>

text \<open>
  An extractor as the default constructor leaves it when the arrays start out zeroed: no
  dataset, and tables of the sizes given by the capacity constants.
\<close>

definition blank_landmark :: "b64 Landmark" where
  "blank_landmark =
     \<lparr>id = 0, barcode = 0, x = Fnum 0, y = Fnum 0, x_std_dev = Fnum 0, y_std_dev = Fnum 0\<rparr>"

definition blank_robot :: "b64 Robot" where
  "blank_robot = \<lparr>raw = \<lparr>ground_truth = [], odometry = [], measurements = []\<rparr>\<rparr>"

definition fresh :: "Capacity \<Rightarrow> b64 DataExtractor" where
  "fresh cap =
     \<lparr>this_dataset = [],
      this_barcodes = replicate (TOTAL_BARCODES cap) 0,
      this_landmarks = replicate (TOTAL_LANDMARKS cap) blank_landmark,
      this_robots = replicate (TOTAL_ROBOTS cap) blank_robot\<rparr>"

text \<open>A small configuration: two barcodes, one landmark, one robot.\<close>

definition small :: Capacity where
  "small = \<lparr>TOTAL_BARCODES = 2, TOTAL_LANDMARKS = 1, TOTAL_ROBOTS = 1\<rparr>"

text \<open>A file system with the one folder \<^verbatim>\<open>data\<close> and the files of a table.\<close>

definition folder :: "(string \<times> string list) list \<Rightarrow> FileSystem" where
  "folder table =
     \<lparr>stat_ok = (\<lambda>p. p = ''data''), contents = map_of table, writable = (\<lambda>p. True)\<rparr>"

text \<open>A line made of tab-separated fields.\<close>

fun tabbed :: "string list \<Rightarrow> string" where
  "tabbed [] = []"
| "tabbed [f] = f"
| "tabbed (f # g # fs) = f @ TAB # tabbed (g # fs)"

definition landmark_line :: string where
  "landmark_line = tabbed [''1'', ''2.0'', ''3.0'', ''0.1'', ''0.1'']"

definition landmarks_only :: FileSystem where
  "landmarks_only = folder [(''data/Landmark_Groundtruth.dat'', [landmark_line])]"

definition robot1_files :: "(string \<times> string list) list" where
  "robot1_files =
     [(''data/Robot1_Groundtruth.dat'', [''# Time x y orientation'',
          tabbed [''10.00'', ''1.5'', ''-2.5'', ''0.25'']]),
      (''data/Robot1_Odometry.dat'', [tabbed [''10.00'', ''0.5'', ''-0.125'']]),
      (''data/Robot1_Measurement.dat'',
         [tabbed [''10.00'', ''5'', ''1.5'', ''0.25''],
          tabbed [''10.03'', ''6'', ''2.5'', ''0.5''],
          tabbed [''10.20'', ''7'', ''3.5'', ''-0.5'']])]"

definition one_robot :: "b64 DataExtractor" where
  "one_robot =
     \<lparr>this_dataset = ''data'', this_barcodes = [10, 20], this_landmarks = [blank_landmark],
      this_robots =
        [\<lparr>raw = \<lparr>ground_truth =
                   [\<lparr>gt_time = Fnum 1, gt_x = Fnum 2, gt_y = Fnum 3, gt_orientation = Fnum 4\<rparr>],
                 odometry =
                   [\<lparr>od_time = Fnum 1, forward_velocity = Fnum 2, angular_velocity = Fnum 3\<rparr>],
                 measurements =
                   [\<lparr>time = Fnum 1, subjects = [5], ranges = [Fnum 2],
                       bearings = [Fnum 3]\<rparr>]\<rparr>\<rparr>]\<rparr>"

text \<open>
  A barcode file in the one-column form of the specification's example, and one in the
  two-column form (subject, barcode) that \<^verbatim>\<open>readBarcodes\<close> reads, each in a folder with
  the landmark file; the second folder also holds the files of robot 1.
\<close>

definition one_column :: FileSystem where
  "one_column =
     folder [(''data/Barcodes.dat'', [''10'', ''20'']),
             (''data/Landmark_Groundtruth.dat'', [landmark_line])]"

definition two_column :: FileSystem where
  "two_column =
     folder ([(''data/Barcodes.dat'',
                 [''# Subject Barcode'', tabbed [''1'', ''10''], tabbed [''2'', ''20'']]),
              (''data/Landmark_Groundtruth.dat'', [landmark_line])] @ robot1_files)"

text \<open>A barcode file with three rows, one more than \<open>small\<close> allows.\<close>

definition three_barcodes :: FileSystem where
  "three_barcodes =
     folder [(''data/Barcodes.dat'',
                [tabbed [''1'', ''10''], tabbed [''2'', ''20''], tabbed [''3'', ''30'']])]"

text \<open>
  A landmark file whose row names the surface identity 3, for which the barcode table of
  \<open>small\<close> has no entry.
\<close>

definition landmark_three :: FileSystem where
  "landmark_three =
     folder [(''data/Landmark_Groundtruth.dat'',
                [tabbed [''3'', ''2.0'', ''3.0'', ''0.1'', ''0.1'']])]"

text \<open>
  Lines that differ from those of robot 1 by spaces only, and a line with a carriage
  return inside a number.
\<close>

definition spaced_groundtruth :: string where
  "spaced_groundtruth = tabbed [''1 0.00'', '' 1.5'', ''-2.5 '', ''0 . 2 5'']"

definition spaced_odometry :: string where
  "spaced_odometry = tabbed [''10.00 '', '' 0.5'', ''-0.1 25'']"

definition spaced_measurement :: string where
  "spaced_measurement = tabbed [''10.00'', '' 5'', ''1 .5'', ''0.25 '']"

definition broken_measurement :: string where
  "broken_measurement = tabbed [''10.00'', ''5'', ''1'' @ [CHR 0x0D] @ ''5'', ''0.25'']"

section \<open>Properties\<close>

subsection \<open>Evaluation\<close>

lemmas file_defs = barcodes_file_def landmarks_file_def groundtruth_file_def odometry_file_def
  measurement_file_def to_string_def digits_of.simps open_ifstream_def open_fstream_def
  folder_def

lemmas store_defs = set_ground_truth_def set_odometry_def set_measurements_def

lemmas parse_defs = measurement_row_def groundtruth_row_def odometry_row_def barcode_field_def
  new_Groundtruth_def new_Odometry_def int_field_def double_field_def find_char_def
  increment_def substr_def stoi_def stod_def scan_double_def scan_decimal_def scan_hex_def
  read_exponent_def read_sign_def nan_payload_def is_nchar_def ishex_def hex_value_def
  hex_digit_value_def scale_def isspace_def isdigit_def decimal_value_def digit_value_def
  is_comment_def remove_spaces_def

lemma halvings_numeral:
  "halvings (numeral k) v = (if 2 \<le> v then 1 + halvings (pred_numeral k) (v / 2) else 0)"
  by (simp add: numeral_eq_Suc)

lemma doublings_numeral:
  "doublings (numeral k) v = (if v < 1 then 1 + doublings (pred_numeral k) (2 * v) else 0)"
  by (simp add: numeral_eq_Suc)

lemmas b64_defs = binary64_def crowded_def dbl_def b64_checked_def b64_round_def b64_minus_def
  round64_def binade_def pow2_def scale_def round_even_def halvings_numeral doublings_numeral
  Let_def

lemma landmark_line_row:
  "landmark_row binary64 [10, 20] (remove_spaces landmark_line) 0 [blank_landmark]
     = (Returns Loaded,
        [\<lparr>id = 1, barcode = 10, x = dbl 2.0, y = dbl 3.0,
          x_std_dev = dbl 0.1, y_std_dev = dbl 0.1\<rparr>])"
  by (simp add: landmark_row_def landmark_line_def blank_landmark_def barcode_at_def
      parse_defs b64_defs)

text \<open>
  \<^verbatim>\<open>std::stod\<close> on the forms of \<^verbatim>\<open>strtod\<close>: a hexadecimal number, an infinity, a
  not-a-number, a text with nothing to convert, and a decimal number too large for a
  \<^verbatim>\<open>double\<close>.
\<close>

lemma stod_forms:
  "stod binary64 ''0x10'' = Inr (Fnum 16)
   \<and> stod binary64 ''inf'' = Inr (Finf False)
   \<and> stod binary64 ''-nan'' = Inr Fnan
   \<and> stod binary64 ''abc'' = Inl InvalidArgument"
  by (simp add: parse_defs b64_defs)

lemma stod_overflow: "stod binary64 ''1e400'' = Inl OutOfRange"
  by (simp add: parse_defs b64_defs)

subsection \<open>What the loaders leave alone\<close>

lemma readBarcodes_keeps:
  "readBarcodes cap fs d ex = (r, ex') \<Longrightarrow>
     this_dataset ex' = this_dataset ex \<and> this_landmarks ex' = this_landmarks ex
     \<and> this_robots ex' = this_robots ex"
  by (auto simp: readBarcodes_def split: if_splits option.splits prod.splits)

lemma readLandmarks_keeps:
  "readLandmarks fp cap fs d ex = (r, ex') \<Longrightarrow>
     this_dataset ex' = this_dataset ex \<and> this_barcodes ex' = this_barcodes ex
     \<and> this_robots ex' = this_robots ex"
  by (auto simp: readLandmarks_def split: if_splits option.splits prod.splits)

lemma readGroundTruth_keeps:
  "readGroundTruth fp fs d i ex = (r, ex') \<Longrightarrow>
     this_dataset ex' = this_dataset ex \<and> this_barcodes ex' = this_barcodes ex
     \<and> this_landmarks ex' = this_landmarks ex \<and> length (this_robots ex') = length (this_robots ex)"
  by (auto simp: readGroundTruth_def store_defs Let_def split: if_splits option.splits prod.splits)

lemma readOdometry_keeps:
  "readOdometry fp fs d i ex = (r, ex') \<Longrightarrow>
     this_dataset ex' = this_dataset ex \<and> this_barcodes ex' = this_barcodes ex
     \<and> this_landmarks ex' = this_landmarks ex \<and> length (this_robots ex') = length (this_robots ex)"
  by (auto simp: readOdometry_def store_defs Let_def split: if_splits option.splits prod.splits)

lemma readMeasurements_keeps:
  "readMeasurements fp fs d i ex = (r, ex') \<Longrightarrow>
     this_dataset ex' = this_dataset ex \<and> this_barcodes ex' = this_barcodes ex
     \<and> this_landmarks ex' = this_landmarks ex \<and> length (this_robots ex') = length (this_robots ex)"
  by (auto simp: readMeasurements_def store_defs Let_def split: if_splits option.splits prod.splits)

lemma robots_loop_keeps:
  "robots_loop fp fs d js flags ex = (r, ex') \<Longrightarrow>
     this_dataset ex' = this_dataset ex \<and> this_barcodes ex' = this_barcodes ex
     \<and> this_landmarks ex' = this_landmarks ex"
proof (induction js arbitrary: flags ex)
  case Nil
  then show ?case by simp
next
  case (Cons j js)
  obtain g od m where flags: "flags = (g, od, m)" by (cases flags) auto
  obtain r1 e1 where g1: "readGroundTruth fp fs d j ex = (r1, e1)" by (cases "readGroundTruth fp fs d j ex")
  obtain r2 e2 where g2: "readOdometry fp fs d j e1 = (r2, e2)" by (cases "readOdometry fp fs d j e1")
  obtain r3 e3 where g3: "readMeasurements fp fs d j e2 = (r3, e3)" by (cases "readMeasurements fp fs d j e2")
  note k1 = readGroundTruth_keeps [OF g1] and k2 = readOdometry_keeps [OF g2]
    and k3 = readMeasurements_keeps [OF g3]
  show ?case
  proof (cases r1)
    case (Throws e)
    with Cons.prems flags g1 k1 show ?thesis by simp
  next
    case a: (Returns a)
    show ?thesis
    proof (cases r2)
      case (Throws e)
      with Cons.prems flags g1 g2 a k1 k2 show ?thesis by simp
    next
      case b: (Returns b)
      show ?thesis
      proof (cases r3)
        case (Throws e)
        with Cons.prems flags g1 g2 g3 a b k1 k2 k3 show ?thesis by simp
      next
        case c: (Returns c)
        from Cons.prems flags g1 g2 g3 a b c
        have "robots_loop fp fs d js (g \<and> a = Loaded, od \<and> b = Loaded, m \<and> c = Loaded) e3 = (r, ex')"
          by simp
        from Cons.IH [OF this] k1 k2 k3 show ?thesis by simp
      qed
    qed
  qed
qed

lemma setDataSet_keeps_dataset:
  assumes "dataset \<noteq> []" "stat_ok fs dataset"
  shows "this_dataset (snd (setDataSet fp cap fs dataset ex)) = dataset"
proof -
  let ?ex0 = "ex\<lparr>this_dataset := dataset\<rparr>"
  obtain r1 e1 where g1: "readBarcodes cap fs dataset ?ex0 = (r1, e1)"
    by (cases "readBarcodes cap fs dataset ?ex0")
  obtain r2 e2 where g2: "readLandmarks fp cap fs dataset e1 = (r2, e2)"
    by (cases "readLandmarks fp cap fs dataset e1")
  obtain r3 e3 where g3: "robots_loop fp fs dataset [0..<TOTAL_ROBOTS cap] (True, True, True) e2 = (r3, e3)"
    by (cases "robots_loop fp fs dataset [0..<TOTAL_ROBOTS cap] (True, True, True) e2")
  note k = readBarcodes_keeps [OF g1] readLandmarks_keeps [OF g2] robots_loop_keeps [OF g3]
  show ?thesis using assms g1 g2 g3 k
    by (auto simp: setDataSet_def split: outcome.splits prod.splits)
qed

subsection \<open>The accessors\<close>

text \<open>
  Claim C2, as the code has it. The accessors test the stored dataset path, not the
  success of a load: they fail with \<open>UninitializedAccess\<close> while the stored path is
  empty, and a load that fails the path check leaves them failing; after any load that
  passed the path check, successful or not, each accessor returns its table.
\<close>

theorem accessors_guard:
  "(this_dataset ex = [] \<longrightarrow>
      getBarcodes ex = Throws UninitializedAccess \<and> getLandmarks ex = Throws UninitializedAccess
      \<and> getRobots ex = Throws UninitializedAccess)
   \<and> (this_dataset ex = [] \<and> \<not> (dataset \<noteq> [] \<and> stat_ok fs dataset) \<longrightarrow>
      getBarcodes (snd (setDataSet fp cap fs dataset ex)) = Throws UninitializedAccess
      \<and> getLandmarks (snd (setDataSet fp cap fs dataset ex)) = Throws UninitializedAccess
      \<and> getRobots (snd (setDataSet fp cap fs dataset ex)) = Throws UninitializedAccess)
   \<and> (dataset \<noteq> [] \<and> stat_ok fs dataset \<longrightarrow>
      getBarcodes (snd (setDataSet fp cap fs dataset ex))
        = Returns (this_barcodes (snd (setDataSet fp cap fs dataset ex)))
      \<and> getLandmarks (snd (setDataSet fp cap fs dataset ex))
        = Returns (this_landmarks (snd (setDataSet fp cap fs dataset ex)))
      \<and> getRobots (snd (setDataSet fp cap fs dataset ex))
        = Returns (this_robots (snd (setDataSet fp cap fs dataset ex))))"
proof (intro conjI impI)
  assume a: "dataset \<noteq> [] \<and> stat_ok fs dataset"
  then have d: "this_dataset (snd (setDataSet fp cap fs dataset ex)) \<noteq> []"
    by (simp add: setDataSet_keeps_dataset)
  from d show "getBarcodes (snd (setDataSet fp cap fs dataset ex))
        = Returns (this_barcodes (snd (setDataSet fp cap fs dataset ex)))"
    by (simp add: getBarcodes_def)
  from d show "getLandmarks (snd (setDataSet fp cap fs dataset ex))
        = Returns (this_landmarks (snd (setDataSet fp cap fs dataset ex)))"
    by (simp add: getLandmarks_def)
  from d show "getRobots (snd (setDataSet fp cap fs dataset ex))
        = Returns (this_robots (snd (setDataSet fp cap fs dataset ex)))"
    by (simp add: getRobots_def)
qed (simp_all add: getBarcodes_def getLandmarks_def getRobots_def setDataSet_def)

theorem accessors_guard_witness:
  "getBarcodes (fresh small) = Throws UninitializedAccess
   \<and> getRobots (snd (setDataSet binary64 small (folder []) ''nowhere'' (fresh small))) = Throws UninitializedAccess
   \<and> getLandmarks (snd (setDataSet binary64 small (folder []) ''data'' (fresh small)))
       = Returns [blank_landmark]"
  using accessors_guard [where ex = "fresh small" and dataset = "''nowhere''" and fs = "folder []"
      and cap = small and fp = binary64]
    accessors_guard [where ex = "fresh small" and dataset = "''data''" and fs = "folder []"
      and cap = small and fp = binary64]
  by (simp add: setDataSet_def readBarcodes_def readLandmarks_def readGroundTruth_def
      readOdometry_def readMeasurements_def store_defs file_defs small_def fresh_def
      blank_robot_def)

text \<open>
  Claim C2 as stated fails: in a folder that exists but holds no file the load fails with
  \<open>ExtractionFailed\<close>, and \<^verbatim>\<open>getBarcodes\<close> then returns the table.
\<close>

theorem failed_load_accessor_counterexample:
  "fst (setDataSet binary64 small (folder []) ''data'' (fresh small)) = Throws ExtractionFailed
   \<and> getBarcodes (snd (setDataSet binary64 small (folder []) ''data'' (fresh small))) = Returns [0, 0]"
  by (simp add: setDataSet_def readBarcodes_def readLandmarks_def readGroundTruth_def
      readOdometry_def readMeasurements_def store_defs file_defs small_def fresh_def
      getBarcodes_def blank_robot_def numeral_2_eq_2)

subsection \<open>The dataset path\<close>

text \<open>
  Claim C8: when \<^verbatim>\<open>stat\<close> fails on the dataset path, the load throws \<open>PathNotFound\<close> and the
  extractor is exactly as before, whatever files the file system holds: no loader has
  run, and neither the tables nor the stored path have changed.
\<close>

theorem setDataSet_missing_path:
  "\<not> stat_ok fs dataset \<Longrightarrow> setDataSet fp cap fs dataset ex = (Throws PathNotFound, ex)"
  by (simp add: setDataSet_def)

theorem setDataSet_missing_path_witness:
  "\<not> stat_ok (folder robot1_files) ''elsewhere''
   \<and> setDataSet binary64 small (folder robot1_files) ''elsewhere'' one_robot
       = (Throws PathNotFound, one_robot)"
  using setDataSet_missing_path [where fs = "folder robot1_files" and dataset = "''elsewhere''"
      and cap = small and ex = one_robot and fp = binary64]
  by (simp add: folder_def)

subsection \<open>A file that cannot be opened\<close>

text \<open>
  Claim C10: each per-robot loader clears its sequence before it opens its file, so when
  the file cannot be opened it returns the failure with that robot's sequence empty;
  what was loaded before is gone.
\<close>

theorem failed_open_clears_sequence:
  assumes "robot_id < length (this_robots ex)"
  shows "(open_ifstream fs (groundtruth_file dataset robot_id) = None \<longrightarrow>
            readGroundTruth fp fs dataset robot_id ex
              = (Returns (Failed FileNotFound), set_ground_truth robot_id [] ex)
            \<and> ground_truth (raw (this_robots (snd (readGroundTruth fp fs dataset robot_id ex))
                  ! robot_id)) = [])
       \<and> (open_fstream fs (odometry_file dataset robot_id) = None \<longrightarrow>
            readOdometry fp fs dataset robot_id ex
              = (Returns (Failed FileNotFound), set_odometry robot_id [] ex)
            \<and> odometry (raw (this_robots (snd (readOdometry fp fs dataset robot_id ex))
                  ! robot_id)) = [])
       \<and> (open_fstream fs (measurement_file dataset robot_id) = None \<longrightarrow>
            readMeasurements fp fs dataset robot_id ex
              = (Returns (Failed FileNotFound), set_measurements robot_id [] ex)
            \<and> measurements (raw (this_robots (snd (readMeasurements fp fs dataset robot_id ex))
                  ! robot_id)) = [])"
  using assms
  by (simp add: readGroundTruth_def readOdometry_def readMeasurements_def store_defs)

theorem failed_open_clears_sequence_witness:
  "ground_truth (raw (this_robots one_robot ! 0)) \<noteq> []
   \<and> fst (readGroundTruth binary64 (folder []) ''data'' 0 one_robot) = Returns (Failed FileNotFound)
   \<and> ground_truth (raw (this_robots (snd (readGroundTruth binary64 (folder []) ''data'' 0 one_robot))
         ! 0)) = []
   \<and> odometry (raw (this_robots (snd (readOdometry binary64 (folder []) ''data'' 0 one_robot)) ! 0)) = []
   \<and> measurements (raw (this_robots (snd (readMeasurements binary64 (folder []) ''data'' 0 one_robot))
         ! 0)) = []"
  using failed_open_clears_sequence [where robot_id = 0 and ex = one_robot and fs = "folder []"
      and dataset = "''data''" and fp = binary64]
  by (simp add: one_robot_def file_defs store_defs)

subsection \<open>Aggregation of the measurements\<close>

lemma find_if_le: "find_if P as \<le> length as"
  by (induction as) auto

lemma find_if_before: "j < find_if P as \<Longrightarrow> \<not> P (as ! j)"
proof (induction as arbitrary: j)
  case Nil
  then show ?case by simp
next
  case (Cons a as)
  then show ?case by (cases j) (auto split: if_splits)
qed

lemma find_if_at: "find_if P as < length as \<Longrightarrow> P (as ! find_if P as)"
  by (induction as) auto

lemma find_if_end: "find_if P as = length as \<longleftrightarrow> (\<forall>a \<in> set as. \<not> P a)"
  by (induction as) auto

lemma measurements_loop_fold:
  "map (\<lambda>l. measurement_row fp (remove_spaces l)) (filter (\<lambda>l. \<not> is_comment l) ls) = map Inr rows
     \<Longrightarrow> measurements_loop fp ls ms = (Returns Loaded, foldl (add_reading fp) ms rows)"
proof (induction ls arbitrary: ms rows)
  case Nil
  then show ?case by simp
next
  case (Cons l ls)
  show ?case
  proof (cases "is_comment l")
    case True
    with Cons show ?thesis by simp
  next
    case False
    with Cons.prems obtain row rest where rows: "rows = row # rest"
      and row: "measurement_row fp (remove_spaces l) = Inr row"
      and rest: "map (\<lambda>l. measurement_row fp (remove_spaces l)) (filter (\<lambda>l. \<not> is_comment l) ls)
                   = map Inr rest"
      by (cases rows) auto
    from Cons.IH [OF rest] False row rows show ?thesis by simp
  qed
qed

lemma set_measurements_twice:
  "robot_id < length (this_robots ex) \<Longrightarrow>
     set_measurements robot_id ms (set_measurements robot_id ms' ex) = set_measurements robot_id ms ex"
  by (simp add: set_measurements_def)

lemma readMeasurements_fold:
  assumes "robot_id < length (this_robots ex)"
    and "open_fstream fs (measurement_file dataset robot_id) = Some ls"
    and "map (\<lambda>l. measurement_row fp (remove_spaces l)) (filter (\<lambda>l. \<not> is_comment l) ls)
           = map Inr rows"
  shows "readMeasurements fp fs dataset robot_id ex
           = (Returns Loaded, set_measurements robot_id (foldl (add_reading fp) [] rows) ex)"
proof -
  from assms(3)
  have "measurements_loop fp ls [] = (Returns Loaded, foldl (add_reading fp) [] rows)"
    by (rule measurements_loop_fold)
  with assms(1,2) show ?thesis
    by (simp add: readMeasurements_def set_measurements_twice)
qed

lemma Measurement_appended:
  "(m :: 'd Measurement)\<lparr>subjects := ss, ranges := rs, bearings := bs\<rparr>
     = \<lparr>time = time m, subjects = ss, ranges = rs, bearings = bs\<rparr>"
  by (cases m) simp

lemma add_reading_hit:
  assumes "\<exists>m \<in> set ms. d_ge fp (time m) (d_minus fp t (of_literal fp 0.05))
             \<and> d_le fp (time m) (d_plus fp t (of_literal fp 0.05))"
  shows "\<exists>i < length ms.
           (d_ge fp (time (ms ! i)) (d_minus fp t (of_literal fp 0.05))
            \<and> d_le fp (time (ms ! i)) (d_plus fp t (of_literal fp 0.05)))
           \<and> (\<forall>j < i. \<not> (d_ge fp (time (ms ! j)) (d_minus fp t (of_literal fp 0.05))
                           \<and> d_le fp (time (ms ! j)) (d_plus fp t (of_literal fp 0.05))))
           \<and> add_reading fp ms (t, subject, rng, bearing)
               = ms[i := \<lparr>time = time (ms ! i), subjects = subjects (ms ! i) @ [subject],
                          ranges = ranges (ms ! i) @ [rng],
                          bearings = bearings (ms ! i) @ [bearing]\<rparr>]"
proof -
  let ?i = "find_if (within_window fp t) ms"
  from assms have "\<not> (\<forall>a \<in> set ms. \<not> within_window fp t a)"
    by (auto simp: within_window_def)
  then have "?i \<noteq> length ms" by (simp add: find_if_end)
  with find_if_le [of "within_window fp t" ms] have lt: "?i < length ms" by simp
  from find_if_at [OF lt]
  have hit: "d_ge fp (time (ms ! ?i)) (d_minus fp t (of_literal fp 0.05))
             \<and> d_le fp (time (ms ! ?i)) (d_plus fp t (of_literal fp 0.05))"
    by (simp add: within_window_def)
  have before: "\<forall>j < ?i. \<not> (d_ge fp (time (ms ! j)) (d_minus fp t (of_literal fp 0.05))
                           \<and> d_le fp (time (ms ! j)) (d_plus fp t (of_literal fp 0.05)))"
    using find_if_before [of _ "within_window fp t" ms] by (auto simp: within_window_def)
  have "add_reading fp ms (t, subject, rng, bearing)
          = ms[?i := \<lparr>time = time (ms ! ?i), subjects = subjects (ms ! ?i) @ [subject],
                      ranges = ranges (ms ! ?i) @ [rng],
                      bearings = bearings (ms ! ?i) @ [bearing]\<rparr>]"
    using lt by (simp add: add_reading_def Let_def Measurement_appended)
  with lt hit before show ?thesis by blast
qed

lemma add_reading_miss:
  assumes "\<not> (\<exists>m \<in> set ms. d_ge fp (time m) (d_minus fp t (of_literal fp 0.05))
                \<and> d_le fp (time m) (d_plus fp t (of_literal fp 0.05)))"
  shows "add_reading fp ms (t, subject, rng, bearing)
           = ms @ [\<lparr>time = t, subjects = [subject], ranges = [rng], bearings = [bearing]\<rparr>]"
proof -
  from assms have "\<forall>a \<in> set ms. \<not> within_window fp t a"
    by (auto simp: within_window_def)
  then have "find_if (within_window fp t) ms = length ms" by (simp add: find_if_end)
  then show ?thesis by (simp add: add_reading_def new_Measurement_def)
qed

text \<open>The window test on \<open>binary64\<close> numbers, and the tests of the three readings.\<close>

lemma literal_window: "b64_round (1 / 20) = Fnum (round64 (1 / 20))"
  by (simp add: b64_defs)

lemma binary64_window:
  "(d_ge binary64 (Fnum stored) (d_minus binary64 (Fnum t) (of_literal binary64 0.05))
    \<and> d_le binary64 (Fnum stored) (d_plus binary64 (Fnum t) (of_literal binary64 0.05)))
   = (b64_le (b64_round (t - round64 0.05)) (Fnum stored)
      \<and> b64_le (Fnum stored) (b64_round (t + round64 0.05)))"
  by (simp add: binary64_def b64_minus_def literal_window)

lemma second_reading_near:
  "within_window binary64 (dbl 10.03)
     \<lparr>time = dbl 10.00, subjects = ss, ranges = rs, bearings = bs\<rparr>"
  by (simp add: within_window_def b64_defs)

lemma third_reading_far:
  "\<not> within_window binary64 (dbl 10.20)
     \<lparr>time = dbl 10.00, subjects = ss, ranges = rs, bearings = bs\<rparr>"
  by (simp add: within_window_def b64_defs)

lemma three_readings:
  "foldl (add_reading binary64) [] [(dbl 10.00, a, ra, ba), (dbl 10.03, b, rb, bb), (dbl 10.20, c, rc, bc)]
     = [\<lparr>time = dbl 10.00, subjects = [a, b], ranges = [ra, rb], bearings = [ba, bb]\<rparr>,
        \<lparr>time = dbl 10.20, subjects = [c], ranges = [rc], bearings = [bc]\<rparr>]"
  by (simp add: add_reading_def new_Measurement_def second_reading_near [simplified]
      third_reading_far [simplified])

text \<open>
  Claim C1: a reading \<open>(t, subject, rng, bearing)\<close> goes into the first record, in
  insertion order, whose stored time passes the test of the source,
  \<^verbatim>\<open>index.time >= time - 0.05 && index.time <= time + 0.05\<close>, both bounds included: its
  subject, range and bearing are appended to the record's lists and the record's time
  stays. Without such a record, a new record with time \<open>t\<close> and singleton lists is
  appended. \<^verbatim>\<open>readMeasurements\<close> folds the rows of the file in this way, starting from the
  empty sequence. This holds on every platform. On \<open>binary64\<close> the test says that the
  stored time lies between the \<^verbatim>\<open>double\<close>s nearest to \<open>t - c\<close> and to \<open>t + c\<close>, where \<open>c\<close> is
  the \<^verbatim>\<open>double\<close> nearest to 0.05, and readings at 10.00, 10.03 and 10.20 give two
  records.
\<close>

theorem measurement_aggregation:
  "((\<exists>m \<in> set ms. d_ge fp (time m) (d_minus fp t (of_literal fp 0.05))
        \<and> d_le fp (time m) (d_plus fp t (of_literal fp 0.05))) \<longrightarrow>
      (\<exists>i < length ms.
          (d_ge fp (time (ms ! i)) (d_minus fp t (of_literal fp 0.05))
           \<and> d_le fp (time (ms ! i)) (d_plus fp t (of_literal fp 0.05)))
          \<and> (\<forall>j < i. \<not> (d_ge fp (time (ms ! j)) (d_minus fp t (of_literal fp 0.05))
                          \<and> d_le fp (time (ms ! j)) (d_plus fp t (of_literal fp 0.05))))
          \<and> add_reading fp ms (t, subject, rng, bearing)
              = ms[i := \<lparr>time = time (ms ! i), subjects = subjects (ms ! i) @ [subject],
                         ranges = ranges (ms ! i) @ [rng],
                         bearings = bearings (ms ! i) @ [bearing]\<rparr>]))
   \<and> (\<not> (\<exists>m \<in> set ms. d_ge fp (time m) (d_minus fp t (of_literal fp 0.05))
            \<and> d_le fp (time m) (d_plus fp t (of_literal fp 0.05))) \<longrightarrow>
        add_reading fp ms (t, subject, rng, bearing)
          = ms @ [\<lparr>time = t, subjects = [subject], ranges = [rng], bearings = [bearing]\<rparr>])
   \<and> (robot_id < length (this_robots ex)
        \<and> open_fstream fs (measurement_file dataset robot_id) = Some ls
        \<and> map (\<lambda>l. measurement_row fp (remove_spaces l)) (filter (\<lambda>l. \<not> is_comment l) ls)
            = map Inr rows \<longrightarrow>
        readMeasurements fp fs dataset robot_id ex
          = (Returns Loaded, set_measurements robot_id (foldl (add_reading fp) [] rows) ex))
   \<and> (d_ge binary64 (Fnum stored) (d_minus binary64 (Fnum new) (of_literal binary64 0.05))
        \<and> d_le binary64 (Fnum stored) (d_plus binary64 (Fnum new) (of_literal binary64 0.05)))
       = (b64_le (b64_round (new - round64 0.05)) (Fnum stored)
          \<and> b64_le (Fnum stored) (b64_round (new + round64 0.05)))
   \<and> foldl (add_reading binary64) []
        [(dbl 10.00, a, ra, ba), (dbl 10.03, b, rb, bb), (dbl 10.20, c, rc, bc)]
        = [\<lparr>time = dbl 10.00, subjects = [a, b], ranges = [ra, rb], bearings = [ba, bb]\<rparr>,
           \<lparr>time = dbl 10.20, subjects = [c], ranges = [rc], bearings = [bc]\<rparr>]"
proof (intro conjI impI)
  assume "\<exists>m \<in> set ms. d_ge fp (time m) (d_minus fp t (of_literal fp 0.05))
        \<and> d_le fp (time m) (d_plus fp t (of_literal fp 0.05))"
  then show "\<exists>i < length ms.
          (d_ge fp (time (ms ! i)) (d_minus fp t (of_literal fp 0.05))
           \<and> d_le fp (time (ms ! i)) (d_plus fp t (of_literal fp 0.05)))
          \<and> (\<forall>j < i. \<not> (d_ge fp (time (ms ! j)) (d_minus fp t (of_literal fp 0.05))
                          \<and> d_le fp (time (ms ! j)) (d_plus fp t (of_literal fp 0.05))))
          \<and> add_reading fp ms (t, subject, rng, bearing)
              = ms[i := \<lparr>time = time (ms ! i), subjects = subjects (ms ! i) @ [subject],
                         ranges = ranges (ms ! i) @ [rng],
                         bearings = bearings (ms ! i) @ [bearing]\<rparr>]"
    by (rule add_reading_hit)
next
  assume "\<not> (\<exists>m \<in> set ms. d_ge fp (time m) (d_minus fp t (of_literal fp 0.05))
            \<and> d_le fp (time m) (d_plus fp t (of_literal fp 0.05)))"
  then show "add_reading fp ms (t, subject, rng, bearing)
          = ms @ [\<lparr>time = t, subjects = [subject], ranges = [rng], bearings = [bearing]\<rparr>]"
    by (rule add_reading_miss)
next
  assume "robot_id < length (this_robots ex)
        \<and> open_fstream fs (measurement_file dataset robot_id) = Some ls
        \<and> map (\<lambda>l. measurement_row fp (remove_spaces l)) (filter (\<lambda>l. \<not> is_comment l) ls)
            = map Inr rows"
  then show "readMeasurements fp fs dataset robot_id ex
          = (Returns Loaded, set_measurements robot_id (foldl (add_reading fp) [] rows) ex)"
    by (simp add: readMeasurements_fold)
next
  show "(d_ge binary64 (Fnum stored) (d_minus binary64 (Fnum new) (of_literal binary64 0.05))
        \<and> d_le binary64 (Fnum stored) (d_plus binary64 (Fnum new) (of_literal binary64 0.05)))
       = (b64_le (b64_round (new - round64 0.05)) (Fnum stored)
          \<and> b64_le (Fnum stored) (b64_round (new + round64 0.05)))"
    by (rule binary64_window)
next
  show "foldl (add_reading binary64) []
        [(dbl 10.00, a, ra, ba), (dbl 10.03, b, rb, bb), (dbl 10.20, c, rc, bc)]
        = [\<lparr>time = dbl 10.00, subjects = [a, b], ranges = [ra, rb], bearings = [ba, bb]\<rparr>,
           \<lparr>time = dbl 10.20, subjects = [c], ranges = [rc], bearings = [bc]\<rparr>]"
    by (rule three_readings)
qed

lemma robot1_measurement_rows:
  "map (\<lambda>l. measurement_row binary64 (remove_spaces l))
     (filter (\<lambda>l. \<not> is_comment l)
        [tabbed [''10.00'', ''5'', ''1.5'', ''0.25''],
         tabbed [''10.03'', ''6'', ''2.5'', ''0.5''],
         tabbed [''10.20'', ''7'', ''3.5'', ''-0.5'']])
     = map Inr [(dbl 10.00, 5, dbl 1.5, dbl 0.25), (dbl 10.03, 6, dbl 2.5, dbl 0.5),
                (dbl 10.20, 7, dbl 3.5, dbl (- 0.5))]"
  by (simp add: parse_defs b64_defs)

text \<open>
  A reading at 10.050000000000001 joins the record at 10.00, and one at 0.20 does not join
  the record at 0.15: in \<open>binary64\<close> the first difference rounds to 10 and the second to a
  number above the \<^verbatim>\<open>double\<close> nearest to 0.15.
\<close>

theorem measurement_aggregation_witness:
  "add_reading binary64
       [\<lparr>time = dbl 10.00, subjects = [5], ranges = [dbl 1.5], bearings = [dbl 0.25]\<rparr>]
       (dbl 10.050000000000001, 6, dbl 2.5, dbl 0.5)
     = [\<lparr>time = dbl 10.00, subjects = [5, 6], ranges = [dbl 1.5, dbl 2.5],
          bearings = [dbl 0.25, dbl 0.5]\<rparr>]
   \<and> add_reading binary64
       [\<lparr>time = dbl 0.15, subjects = [5], ranges = [dbl 1.5], bearings = [dbl 0.25]\<rparr>]
       (dbl 0.20, 7, dbl 3.5, dbl (- 0.5))
     = [\<lparr>time = dbl 0.15, subjects = [5], ranges = [dbl 1.5], bearings = [dbl 0.25]\<rparr>,
        \<lparr>time = dbl 0.20, subjects = [7], ranges = [dbl 3.5], bearings = [dbl (- 0.5)]\<rparr>]
   \<and> readMeasurements binary64 (folder robot1_files) ''data'' 0 one_robot
     = (Returns Loaded,
        set_measurements 0
          [\<lparr>time = dbl 10.00, subjects = [5, 6], ranges = [dbl 1.5, dbl 2.5],
              bearings = [dbl 0.25, dbl 0.5]\<rparr>,
           \<lparr>time = dbl 10.20, subjects = [7], ranges = [dbl 3.5], bearings = [dbl (- 0.5)]\<rparr>]
          one_robot)"
proof (intro conjI)
  let ?m = "\<lparr>time = dbl 10.00, subjects = [5], ranges = [dbl 1.5], bearings = [dbl 0.25]\<rparr>"
  let ?m' = "\<lparr>time = dbl 10.00, subjects = [5, 6], ranges = [dbl 1.5, dbl 2.5],
               bearings = [dbl 0.25, dbl 0.5]\<rparr>"
  let ?n = "\<lparr>time = dbl 0.15, subjects = [5], ranges = [dbl 1.5], bearings = [dbl 0.25]\<rparr>"
  let ?ls = "[tabbed [''10.00'', ''5'', ''1.5'', ''0.25''],
              tabbed [''10.03'', ''6'', ''2.5'', ''0.5''],
              tabbed [''10.20'', ''7'', ''3.5'', ''-0.5'']]"
  let ?rows = "[(dbl 10.00, 5, dbl 1.5, dbl 0.25), (dbl 10.03, 6, dbl 2.5, dbl 0.5),
                (dbl 10.20, 7, dbl 3.5, dbl (- 0.5))]"
  have near: "\<exists>m \<in> set [?m].
      d_ge binary64 (time m) (d_minus binary64 (dbl 10.050000000000001) (of_literal binary64 0.05))
      \<and> d_le binary64 (time m) (d_plus binary64 (dbl 10.050000000000001) (of_literal binary64 0.05))"
    by (simp add: b64_defs)
  have far: "\<not> (\<exists>m \<in> set [?n].
      d_ge binary64 (time m) (d_minus binary64 (dbl 0.20) (of_literal binary64 0.05))
      \<and> d_le binary64 (time m) (d_plus binary64 (dbl 0.20) (of_literal binary64 0.05)))"
    by (simp add: b64_defs)
  have opened: "0 < length (this_robots one_robot)
        \<and> open_fstream (folder robot1_files) (measurement_file ''data'' 0) = Some ?ls
        \<and> map (\<lambda>l. measurement_row binary64 (remove_spaces l)) (filter (\<lambda>l. \<not> is_comment l) ?ls)
            = map Inr ?rows"
    using robot1_measurement_rows by (simp add: one_robot_def file_defs robot1_files_def)
  from measurement_aggregation [where fp = binary64 and ms = "[?m]"
      and t = "dbl 10.050000000000001" and subject = 6 and rng = "dbl 2.5" and bearing = "dbl 0.5",
      THEN conjunct1, THEN mp, OF near]
  obtain i where "i < length [?m]"
    and "add_reading binary64 [?m] (dbl 10.050000000000001, 6, dbl 2.5, dbl 0.5)
           = [?m][i := \<lparr>time = time ([?m] ! i), subjects = subjects ([?m] ! i) @ [6],
                         ranges = ranges ([?m] ! i) @ [dbl 2.5],
                         bearings = bearings ([?m] ! i) @ [dbl 0.5]\<rparr>]"
    by blast
  then show "add_reading binary64 [?m] (dbl 10.050000000000001, 6, dbl 2.5, dbl 0.5) = [?m']"
    by simp
  from measurement_aggregation [where fp = binary64 and ms = "[?n]" and t = "dbl 0.20"
      and subject = 7 and rng = "dbl 3.5" and bearing = "dbl (- 0.5)",
      THEN conjunct2, THEN conjunct1, THEN mp, OF far]
  show "add_reading binary64 [?n] (dbl 0.20, 7, dbl 3.5, dbl (- 0.5))
          = [?n, \<lparr>time = dbl 0.20, subjects = [7], ranges = [dbl 3.5],
                   bearings = [dbl (- 0.5)]\<rparr>]"
    by simp
  note whole = measurement_aggregation [where fp = binary64 and robot_id = 0 and ex = one_robot
      and fs = "folder robot1_files" and dataset = "''data''" and ls = ?ls and rows = ?rows
      and a = 5 and ra = "dbl 1.5" and ba = "dbl 0.25" and b = 6 and rb = "dbl 2.5"
      and bb = "dbl 0.5" and c = 7 and rc = "dbl 3.5" and bc = "dbl (- 0.5)"]
  note loaded = whole [THEN conjunct2, THEN conjunct2, THEN conjunct1, THEN mp, OF opened]
  note folded = whole [THEN conjunct2, THEN conjunct2, THEN conjunct2, THEN conjunct2]
  show "readMeasurements binary64 (folder robot1_files) ''data'' 0 one_robot
     = (Returns Loaded,
        set_measurements 0
          [?m', \<lparr>time = dbl 10.20, subjects = [7], ranges = [dbl 3.5],
                  bearings = [dbl (- 0.5)]\<rparr>] one_robot)"
    by (simp only: loaded folded)
qed

subsection \<open>Reloading a robot file\<close>

lemma set_ground_truth_twice:
  "robot_id < length (this_robots ex) \<Longrightarrow>
     set_ground_truth robot_id gts (set_ground_truth robot_id gts' ex)
       = set_ground_truth robot_id gts ex"
  by (simp add: set_ground_truth_def)

lemma set_odometry_twice:
  "robot_id < length (this_robots ex) \<Longrightarrow>
     set_odometry robot_id ods (set_odometry robot_id ods' ex) = set_odometry robot_id ods ex"
  by (simp add: set_odometry_def)

lemma length_robots_set [simp]:
  "length (this_robots (set_ground_truth robot_id gts ex)) = length (this_robots ex)"
  "length (this_robots (set_odometry robot_id ods ex)) = length (this_robots ex)"
  "length (this_robots (set_measurements robot_id ms ex)) = length (this_robots ex)"
  by (simp_all add: store_defs)

lemma readGroundTruth_forgets:
  "readGroundTruth fp fs dataset robot_id (set_ground_truth robot_id old ex)
     = (if robot_id < length (this_robots ex) then readGroundTruth fp fs dataset robot_id ex
        else (Throws OutOfBounds, set_ground_truth robot_id old ex))"
  by (simp add: readGroundTruth_def set_ground_truth_twice)

lemma readOdometry_forgets:
  "readOdometry fp fs dataset robot_id (set_odometry robot_id old ex)
     = (if robot_id < length (this_robots ex) then readOdometry fp fs dataset robot_id ex
        else (Throws OutOfBounds, set_odometry robot_id old ex))"
  by (simp add: readOdometry_def set_odometry_twice)

lemma readMeasurements_forgets:
  "readMeasurements fp fs dataset robot_id (set_measurements robot_id old ex)
     = (if robot_id < length (this_robots ex) then readMeasurements fp fs dataset robot_id ex
        else (Throws OutOfBounds, set_measurements robot_id old ex))"
  by (simp add: readMeasurements_def set_measurements_twice)

lemma readGroundTruth_again:
  "readGroundTruth fp fs dataset robot_id (snd (readGroundTruth fp fs dataset robot_id ex))
     = readGroundTruth fp fs dataset robot_id ex"
proof (cases "robot_id < length (this_robots ex)")
  case True
  then have "\<exists>gts. snd (readGroundTruth fp fs dataset robot_id ex) = set_ground_truth robot_id gts ex"
    by (auto simp: readGroundTruth_def set_ground_truth_twice Let_def
        split: option.splits prod.splits)
  then obtain gts where "snd (readGroundTruth fp fs dataset robot_id ex)
      = set_ground_truth robot_id gts ex" ..
  with True show ?thesis by (simp add: readGroundTruth_forgets)
next
  case False
  then show ?thesis by (simp add: readGroundTruth_def)
qed

lemma readOdometry_again:
  "readOdometry fp fs dataset robot_id (snd (readOdometry fp fs dataset robot_id ex))
     = readOdometry fp fs dataset robot_id ex"
proof (cases "robot_id < length (this_robots ex)")
  case True
  then have "\<exists>ods. snd (readOdometry fp fs dataset robot_id ex) = set_odometry robot_id ods ex"
    by (auto simp: readOdometry_def set_odometry_twice Let_def
        split: option.splits prod.splits)
  then obtain ods where "snd (readOdometry fp fs dataset robot_id ex)
      = set_odometry robot_id ods ex" ..
  with True show ?thesis by (simp add: readOdometry_forgets)
next
  case False
  then show ?thesis by (simp add: readOdometry_def)
qed

lemma readMeasurements_again:
  "readMeasurements fp fs dataset robot_id (snd (readMeasurements fp fs dataset robot_id ex))
     = readMeasurements fp fs dataset robot_id ex"
proof (cases "robot_id < length (this_robots ex)")
  case True
  then have "\<exists>ms. snd (readMeasurements fp fs dataset robot_id ex) = set_measurements robot_id ms ex"
    by (auto simp: readMeasurements_def set_measurements_twice Let_def
        split: option.splits prod.splits)
  then obtain ms where "snd (readMeasurements fp fs dataset robot_id ex)
      = set_measurements robot_id ms ex" ..
  with True show ?thesis by (simp add: readMeasurements_forgets)
next
  case False
  then show ?thesis by (simp add: readMeasurements_def)
qed

text \<open>
  Claim C7: calling a per-robot loader a second time, on the extractor the first call
  left, gives the same result and the same extractor as the first call; and whatever a
  sequence held before, the loader gives what it gives on the extractor as it is, since
  the sequence is cleared before it is filled. Nothing is ever added to old content.
\<close>

theorem reload_idempotent:
  "readGroundTruth fp fs dataset robot_id (snd (readGroundTruth fp fs dataset robot_id ex))
     = readGroundTruth fp fs dataset robot_id ex
   \<and> readOdometry fp fs dataset robot_id (snd (readOdometry fp fs dataset robot_id ex))
     = readOdometry fp fs dataset robot_id ex
   \<and> readMeasurements fp fs dataset robot_id (snd (readMeasurements fp fs dataset robot_id ex))
     = readMeasurements fp fs dataset robot_id ex
   \<and> (robot_id < length (this_robots ex) \<longrightarrow>
        readGroundTruth fp fs dataset robot_id (set_ground_truth robot_id gts ex)
          = readGroundTruth fp fs dataset robot_id ex
        \<and> readOdometry fp fs dataset robot_id (set_odometry robot_id ods ex)
          = readOdometry fp fs dataset robot_id ex
        \<and> readMeasurements fp fs dataset robot_id (set_measurements robot_id ms ex)
          = readMeasurements fp fs dataset robot_id ex)"
  by (simp add: readGroundTruth_again readOdometry_again readMeasurements_again
      readGroundTruth_forgets readOdometry_forgets readMeasurements_forgets)

lemma robot1_measurements_loaded:
  "readMeasurements binary64 (folder robot1_files) ''data'' 0 one_robot
     = (Returns Loaded,
        set_measurements 0
          [\<lparr>time = dbl 10.00, subjects = [5, 6], ranges = [dbl 1.5, dbl 2.5], bearings = [dbl 0.25, dbl 0.5]\<rparr>,
           \<lparr>time = dbl 10.20, subjects = [7], ranges = [dbl 3.5], bearings = [dbl (- 0.5)]\<rparr>] one_robot)"
proof -
  let ?ls = "[tabbed [''10.00'', ''5'', ''1.5'', ''0.25''],
              tabbed [''10.03'', ''6'', ''2.5'', ''0.5''],
              tabbed [''10.20'', ''7'', ''3.5'', ''-0.5'']]"
  have opened: "open_fstream (folder robot1_files) (measurement_file ''data'' 0) = Some ?ls"
    by (simp add: file_defs robot1_files_def)
  have inside: "0 < length (this_robots one_robot)"
    by (simp add: one_robot_def)
  show ?thesis
    by (simp only: readMeasurements_fold [OF inside opened robot1_measurement_rows]
        three_readings)
qed

theorem reload_idempotent_witness:
  "0 < length (this_robots one_robot)
   \<and> readMeasurements binary64 (folder robot1_files) ''data'' 0
       (snd (readMeasurements binary64 (folder robot1_files) ''data'' 0 one_robot))
     = (Returns Loaded,
        set_measurements 0
          [\<lparr>time = dbl 10.00, subjects = [5, 6], ranges = [dbl 1.5, dbl 2.5], bearings = [dbl 0.25, dbl 0.5]\<rparr>,
           \<lparr>time = dbl 10.20, subjects = [7], ranges = [dbl 3.5], bearings = [dbl (- 0.5)]\<rparr>] one_robot)
   \<and> readMeasurements binary64 (folder robot1_files) ''data'' 0 (set_measurements 0 [] one_robot)
     = (Returns Loaded,
        set_measurements 0
          [\<lparr>time = dbl 10.00, subjects = [5, 6], ranges = [dbl 1.5, dbl 2.5], bearings = [dbl 0.25, dbl 0.5]\<rparr>,
           \<lparr>time = dbl 10.20, subjects = [7], ranges = [dbl 3.5], bearings = [dbl (- 0.5)]\<rparr>] one_robot)"
proof -
  have inside: "0 < length (this_robots one_robot)" by (simp add: one_robot_def)
  note both = reload_idempotent [where fs = "folder robot1_files" and dataset = "''data''"
      and robot_id = 0 and ex = one_robot and fp = binary64 and gts = "[]" and ods = "[]" and ms = "[]"]
  note twice = both [THEN conjunct2, THEN conjunct2, THEN conjunct1]
  note cleared = both [THEN conjunct2, THEN conjunct2, THEN conjunct2, THEN mp, OF inside,
      THEN conjunct2, THEN conjunct2]
  from inside show ?thesis
    unfolding twice cleared by (simp only: robot1_measurements_loaded simp_thms)
qed

subsection \<open>White space in a line\<close>

lemma barcodes_loop_spaces:
  "map is_comment ls = map is_comment ls' \<Longrightarrow> map remove_spaces ls = map remove_spaces ls'
     \<Longrightarrow> barcodes_loop cap ls i bs = barcodes_loop cap ls' i bs"
proof (induction ls arbitrary: ls' i bs)
  case Nil
  then show ?case by simp
next
  case (Cons l ls)
  then obtain l' rest where "ls' = l' # rest" by (cases ls') auto
  with Cons show ?case by (simp add: Let_def split: sum.splits)
qed

lemma landmarks_loop_spaces:
  "map is_comment ls = map is_comment ls' \<Longrightarrow> map remove_spaces ls = map remove_spaces ls'
     \<Longrightarrow> landmarks_loop fp cap bs ls i lms = landmarks_loop fp cap bs ls' i lms"
proof (induction ls arbitrary: ls' i lms)
  case Nil
  then show ?case by simp
next
  case (Cons l ls)
  then obtain l' rest where "ls' = l' # rest" by (cases ls') auto
  with Cons show ?case
    by (simp add: Let_def split: prod.splits outcome.splits loaded.splits)
qed

lemma groundtruth_loop_spaces:
  "map is_comment ls = map is_comment ls' \<Longrightarrow> map remove_spaces ls = map remove_spaces ls'
     \<Longrightarrow> groundtruth_loop fp ls gts = groundtruth_loop fp ls' gts"
proof (induction ls arbitrary: ls' gts)
  case Nil
  then show ?case by simp
next
  case (Cons l ls)
  then obtain l' rest where "ls' = l' # rest" by (cases ls') auto
  with Cons show ?case by (simp split: sum.splits)
qed

lemma odometry_loop_spaces:
  "map is_comment ls = map is_comment ls' \<Longrightarrow> map remove_spaces ls = map remove_spaces ls'
     \<Longrightarrow> odometry_loop fp ls ods = odometry_loop fp ls' ods"
proof (induction ls arbitrary: ls' ods)
  case Nil
  then show ?case by simp
next
  case (Cons l ls)
  then obtain l' rest where "ls' = l' # rest" by (cases ls') auto
  with Cons show ?case by (simp split: sum.splits)
qed

lemma measurements_loop_spaces:
  "map is_comment ls = map is_comment ls' \<Longrightarrow> map remove_spaces ls = map remove_spaces ls'
     \<Longrightarrow> measurements_loop fp ls ms = measurements_loop fp ls' ms"
proof (induction ls arbitrary: ls' ms)
  case Nil
  then show ?case by simp
next
  case (Cons l ls)
  then obtain l' rest where "ls' = l' # rest" by (cases ls') auto
  with Cons show ?case by (simp split: sum.splits)
qed

text \<open>
  Claim C9, as the code has it. A line that is not a comment reaches the field extraction
  of its loader (\<open>barcode_field\<close>, \<open>landmark_row\<close>, \<open>groundtruth_row\<close>, \<open>odometry_row\<close>,
  \<open>measurement_row\<close>) as \<open>remove_spaces\<close> of the line, in each of the five loaders. In
  that text no space is left, and every other character of the line (a tab, a carriage
  return, any other white space) is where it was, in order. So two files that agree
  line by line once the spaces are removed, and on which lines are comments, load alike.
\<close>

theorem loaders_remove_spaces:
  "CHR '' '' \<notin> set (remove_spaces line)
   \<and> remove_spaces (u @ c # w)
       = (if c = CHR '' '' then remove_spaces u @ remove_spaces w
          else remove_spaces u @ c # remove_spaces w)
   \<and> (\<not> is_comment l \<and> i < cap \<longrightarrow>
        barcodes_loop cap (l # ls) i bs
          = (case barcode_field (remove_spaces l) of
               Inl e \<Rightarrow> (Throws e, bs)
             | Inr v \<Rightarrow>
                 if i < length bs then barcodes_loop cap ls (Suc i) (bs[i := v])
                 else (Throws OutOfBounds, bs)))
   \<and> (\<not> is_comment l \<and> i < cap \<longrightarrow>
        landmarks_loop fp cap bs (l # ls) i lms
          = (case landmark_row fp bs (remove_spaces l) i lms of
               (Returns Loaded, lms') \<Rightarrow> landmarks_loop fp cap bs ls (Suc i) lms'
             | (r, lms') \<Rightarrow> (r, lms')))
   \<and> (\<not> is_comment l \<longrightarrow>
        groundtruth_loop fp (l # ls) gts
          = (case groundtruth_row fp (remove_spaces l) of
               Inl e \<Rightarrow> (Throws e, gts)
             | Inr g \<Rightarrow> groundtruth_loop fp ls (gts @ [g])))
   \<and> (\<not> is_comment l \<longrightarrow>
        odometry_loop fp (l # ls) ods
          = (case odometry_row fp (remove_spaces l) of
               Inl e \<Rightarrow> (Throws e, ods)
             | Inr od \<Rightarrow> odometry_loop fp ls (ods @ [od])))
   \<and> (\<not> is_comment l \<longrightarrow>
        measurements_loop fp (l # ls) ms
          = (case measurement_row fp (remove_spaces l) of
               Inl e \<Rightarrow> (Throws e, ms)
             | Inr row \<Rightarrow> measurements_loop fp ls (add_reading fp ms row)))
   \<and> (map is_comment ls = map is_comment ls' \<and> map remove_spaces ls = map remove_spaces ls' \<longrightarrow>
        barcodes_loop cap ls i bs = barcodes_loop cap ls' i bs
        \<and> landmarks_loop fp cap bs ls i lms = landmarks_loop fp cap bs ls' i lms
        \<and> groundtruth_loop fp ls gts = groundtruth_loop fp ls' gts
        \<and> odometry_loop fp ls ods = odometry_loop fp ls' ods
        \<and> measurements_loop fp ls ms = measurements_loop fp ls' ms)"
proof (intro conjI impI)
  show "CHR '' '' \<notin> set (remove_spaces line)"
    by (simp add: remove_spaces_def)
  show "remove_spaces (u @ c # w)
       = (if c = CHR '' '' then remove_spaces u @ remove_spaces w
          else remove_spaces u @ c # remove_spaces w)"
    by (simp add: remove_spaces_def)
next
  assume "\<not> is_comment l \<and> i < cap"
  then show "barcodes_loop cap (l # ls) i bs
          = (case barcode_field (remove_spaces l) of
               Inl e \<Rightarrow> (Throws e, bs)
             | Inr v \<Rightarrow>
                 if i < length bs then barcodes_loop cap ls (Suc i) (bs[i := v])
                 else (Throws OutOfBounds, bs))"
    by (simp add: Let_def)
next
  assume "\<not> is_comment l \<and> i < cap"
  then show "landmarks_loop fp cap bs (l # ls) i lms
          = (case landmark_row fp bs (remove_spaces l) i lms of
               (Returns Loaded, lms') \<Rightarrow> landmarks_loop fp cap bs ls (Suc i) lms'
             | (r, lms') \<Rightarrow> (r, lms'))"
    by (simp add: Let_def)
next
  assume "\<not> is_comment l"
  then show "groundtruth_loop fp (l # ls) gts
          = (case groundtruth_row fp (remove_spaces l) of
               Inl e \<Rightarrow> (Throws e, gts)
             | Inr g \<Rightarrow> groundtruth_loop fp ls (gts @ [g]))"
    by simp
next
  assume "\<not> is_comment l"
  then show "odometry_loop fp (l # ls) ods
          = (case odometry_row fp (remove_spaces l) of
               Inl e \<Rightarrow> (Throws e, ods)
             | Inr od \<Rightarrow> odometry_loop fp ls (ods @ [od]))"
    by simp
next
  assume "\<not> is_comment l"
  then show "measurements_loop fp (l # ls) ms
          = (case measurement_row fp (remove_spaces l) of
               Inl e \<Rightarrow> (Throws e, ms)
             | Inr row \<Rightarrow> measurements_loop fp ls (add_reading fp ms row))"
    by simp
next
  assume a: "map is_comment ls = map is_comment ls' \<and> map remove_spaces ls = map remove_spaces ls'"
  then show "barcodes_loop cap ls i bs = barcodes_loop cap ls' i bs"
    by (intro barcodes_loop_spaces) simp_all
  from a show "landmarks_loop fp cap bs ls i lms = landmarks_loop fp cap bs ls' i lms"
    by (intro landmarks_loop_spaces) simp_all
  from a show "groundtruth_loop fp ls gts = groundtruth_loop fp ls' gts"
    by (intro groundtruth_loop_spaces) simp_all
  from a show "odometry_loop fp ls ods = odometry_loop fp ls' ods"
    by (intro odometry_loop_spaces) simp_all
  from a show "measurements_loop fp ls ms = measurements_loop fp ls' ms"
    by (intro measurements_loop_spaces) simp_all
qed

lemma broken_measurement_row:
  "measurement_row binary64 (remove_spaces broken_measurement)
     = Inr (dbl 10.00, 5, dbl 1, dbl 0.25)"
  by (simp add: broken_measurement_def parse_defs b64_defs)

lemma plain_groundtruth_row:
  "groundtruth_row binary64 (tabbed [''10.00'', ''1.5'', ''-2.5'', ''0.25''])
     = Inr \<lparr>gt_time = dbl 10.00, gt_x = dbl 1.5, gt_y = dbl (- 2.5), gt_orientation = dbl 0.25\<rparr>"
  by (simp add: parse_defs b64_defs)

lemma spaced_odometry_row:
  "odometry_row binary64 (remove_spaces spaced_odometry)
     = Inr \<lparr>od_time = dbl 10.00, forward_velocity = dbl 0.5, angular_velocity = dbl (- 0.125)\<rparr>"
  by (simp add: spaced_odometry_def parse_defs b64_defs)

text \<open>
  Lines with spaces put in load as the lines without them, in each of the five loaders,
  and the carriage return of the last line is still there when its range is converted.
\<close>

theorem loaders_remove_spaces_witness:
  "barcodes_loop 2 [tabbed [''1 '', '' 1 0'']] 0 [0, 0] = (Returns Loaded, [10, 0])
   \<and> landmarks_loop binary64 1 [10, 20] [tabbed [''1'', '' 2.0'', ''3. 0'', ''0.1 '', ''0.1'']] 0
        [blank_landmark]
     = (Returns Loaded,
        [\<lparr>id = 1, barcode = 10, x = dbl 2.0, y = dbl 3.0,
          x_std_dev = dbl 0.1, y_std_dev = dbl 0.1\<rparr>])
   \<and> groundtruth_loop binary64 [spaced_groundtruth] []
     = (Returns Loaded,
        [\<lparr>gt_time = dbl 10.00, gt_x = dbl 1.5, gt_y = dbl (- 2.5), gt_orientation = dbl 0.25\<rparr>])
   \<and> odometry_loop binary64 [spaced_odometry] []
     = (Returns Loaded,
        [\<lparr>od_time = dbl 10.00, forward_velocity = dbl 0.5, angular_velocity = dbl (- 0.125)\<rparr>])
   \<and> measurements_loop binary64 [spaced_measurement] []
     = measurements_loop binary64 [tabbed [''10.00'', ''5'', ''1.5'', ''0.25'']] []
   \<and> measurements_loop binary64 [broken_measurement] []
     = (Returns Loaded,
        [\<lparr>time = dbl 10.00, subjects = [5], ranges = [dbl 1], bearings = [dbl 0.25]\<rparr>])"
proof -
  let ?bar = "tabbed [''1 '', '' 1 0'']"
  let ?lm = "tabbed [''1'', '' 2.0'', ''3. 0'', ''0.1 '', ''0.1'']"
  let ?plain = "tabbed [''10.00'', ''1.5'', ''-2.5'', ''0.25'']"
  let ?ms = "tabbed [''10.00'', ''5'', ''1.5'', ''0.25'']"
  have bar: "\<not> is_comment ?bar \<and> (0::nat) < 2"
    and lm: "\<not> is_comment ?lm \<and> (0::nat) < 1"
    and plain: "\<not> is_comment ?plain"
    and od: "\<not> is_comment spaced_odometry"
    and broken: "\<not> is_comment broken_measurement"
    by (simp_all add: spaced_odometry_def broken_measurement_def is_comment_def)
  have same: "map is_comment [spaced_groundtruth] = map is_comment [?plain]
      \<and> map remove_spaces [spaced_groundtruth] = map remove_spaces [?plain]"
    by (simp add: spaced_groundtruth_def is_comment_def remove_spaces_def)
  have same_ms: "map is_comment [spaced_measurement] = map is_comment [?ms]
      \<and> map remove_spaces [spaced_measurement] = map remove_spaces [?ms]"
    by (simp add: spaced_measurement_def is_comment_def remove_spaces_def)
  have unspaced: "remove_spaces ?plain = ?plain"
    and unspaced_lm: "remove_spaces ?lm = remove_spaces landmark_line"
    by (simp_all add: landmark_line_def remove_spaces_def)
  note barcodes = loaders_remove_spaces [where l = ?bar and i = 0 and cap = 2 and ls = "[]"
      and bs = "[0, 0]",
      THEN conjunct2, THEN conjunct2, THEN conjunct1, THEN mp, OF bar]
  note landmarks = loaders_remove_spaces [where fp = binary64 and l = ?lm and i = 0 and cap = 1
      and ls = "[]" and bs = "[10, 20]" and lms = "[blank_landmark]",
      THEN conjunct2, THEN conjunct2, THEN conjunct2, THEN conjunct1, THEN mp, OF lm]
  note alike = loaders_remove_spaces [where fp = binary64 and ls = "[spaced_groundtruth]"
      and ls' = "[?plain]" and gts = "[]",
      THEN conjunct2, THEN conjunct2, THEN conjunct2, THEN conjunct2, THEN conjunct2,
      THEN conjunct2, THEN conjunct2, THEN mp, OF same,
      THEN conjunct2, THEN conjunct2, THEN conjunct1]
  note ground = loaders_remove_spaces [where fp = binary64 and l = ?plain and ls = "[]"
      and gts = "[]",
      THEN conjunct2, THEN conjunct2, THEN conjunct2, THEN conjunct2, THEN conjunct1,
      THEN mp, OF plain]
  note odometry = loaders_remove_spaces [where fp = binary64 and l = spaced_odometry
      and ls = "[]" and ods = "[]",
      THEN conjunct2, THEN conjunct2, THEN conjunct2, THEN conjunct2, THEN conjunct2,
      THEN conjunct1, THEN mp, OF od]
  note alike_ms = loaders_remove_spaces [where fp = binary64 and ls = "[spaced_measurement]"
      and ls' = "[?ms]" and ms = "[]",
      THEN conjunct2, THEN conjunct2, THEN conjunct2, THEN conjunct2, THEN conjunct2,
      THEN conjunct2, THEN conjunct2, THEN mp, OF same_ms,
      THEN conjunct2, THEN conjunct2, THEN conjunct2, THEN conjunct2]
  note measured = loaders_remove_spaces [where fp = binary64 and l = broken_measurement
      and ls = "[]" and ms = "[]",
      THEN conjunct2, THEN conjunct2, THEN conjunct2, THEN conjunct2, THEN conjunct2,
      THEN conjunct2, THEN conjunct1, THEN mp, OF broken]
  have "barcodes_loop 2 [?bar] 0 [0, 0] = (Returns Loaded, [10, 0])"
    unfolding barcodes by (simp add: parse_defs)
  moreover have "landmarks_loop binary64 1 [10, 20] [?lm] 0 [blank_landmark]
     = (Returns Loaded,
        [\<lparr>id = 1, barcode = 10, x = dbl 2.0, y = dbl 3.0,
          x_std_dev = dbl 0.1, y_std_dev = dbl 0.1\<rparr>])"
    unfolding landmarks unspaced_lm landmark_line_row by simp
  moreover have "groundtruth_loop binary64 [spaced_groundtruth] []
     = (Returns Loaded,
        [\<lparr>gt_time = dbl 10.00, gt_x = dbl 1.5, gt_y = dbl (- 2.5), gt_orientation = dbl 0.25\<rparr>])"
    unfolding alike ground unspaced plain_groundtruth_row by simp
  moreover have "odometry_loop binary64 [spaced_odometry] []
     = (Returns Loaded,
        [\<lparr>od_time = dbl 10.00, forward_velocity = dbl 0.5, angular_velocity = dbl (- 0.125)\<rparr>])"
    unfolding odometry spaced_odometry_row by simp
  moreover have "measurements_loop binary64 [broken_measurement] []
     = (Returns Loaded,
        [\<lparr>time = dbl 10.00, subjects = [5], ranges = [dbl 1], bearings = [dbl 0.25]\<rparr>])"
    unfolding measured broken_measurement_row
    by (simp add: add_reading_def new_Measurement_def)
  ultimately show ?thesis
    using alike_ms by (simp only: simp_thms)
qed

text \<open>
  Claim C9 as stated fails: a carriage return is white space other than a tab, and it is
  still in the line when the fields are extracted. In the measurement line
  \<^verbatim>\<open>10.00<TAB>5<TAB>1<CR>5<TAB>0.25\<close> the range reads as 1; with the carriage return taken
  out it would read as 15.
\<close>

theorem carriage_return_kept_counterexample:
  "isspace (CHR 0x0D) \<and> CHR 0x0D \<noteq> TAB
   \<and> CHR 0x0D \<in> set (remove_spaces broken_measurement)
   \<and> measurements_loop binary64 [broken_measurement] []
     = (Returns Loaded,
        [\<lparr>time = dbl 10.00, subjects = [5], ranges = [dbl 1], bearings = [dbl 0.25]\<rparr>])
   \<and> measurements_loop binary64 [filter (\<lambda>c. c \<noteq> CHR 0x0D) broken_measurement] []
     = (Returns Loaded,
        [\<lparr>time = dbl 10.00, subjects = [5], ranges = [dbl 15], bearings = [dbl 0.25]\<rparr>])"
  by (simp add: broken_measurement_def add_reading_def new_Measurement_def parse_defs b64_defs)

subsection \<open>The order of the loads\<close>

lemma setDataSet_after_barcodes:
  assumes "dataset \<noteq> []" "stat_ok fs dataset"
    and "readBarcodes cap fs dataset (ex\<lparr>this_dataset := dataset\<rparr>) = (Returns b, ex1)"
  shows "this_landmarks (snd (setDataSet fp cap fs dataset ex))
           = this_landmarks (snd (readLandmarks fp cap fs dataset ex1))"
    and "b \<noteq> Loaded \<Longrightarrow> \<exists>e. fst (setDataSet fp cap fs dataset ex) = Throws e"
proof -
  obtain r2 e2 where g2: "readLandmarks fp cap fs dataset ex1 = (r2, e2)"
    by (cases "readLandmarks fp cap fs dataset ex1")
  obtain r3 e3 where g3: "robots_loop fp fs dataset [0..<TOTAL_ROBOTS cap] (True, True, True) e2 = (r3, e3)"
    by (cases "robots_loop fp fs dataset [0..<TOTAL_ROBOTS cap] (True, True, True) e2")
  note k = robots_loop_keeps [OF g3]
  show "this_landmarks (snd (setDataSet fp cap fs dataset ex))
           = this_landmarks (snd (readLandmarks fp cap fs dataset ex1))"
    using assms g2 g3 k by (auto simp: setDataSet_def split: outcome.splits prod.splits)
  show "\<exists>e. fst (setDataSet fp cap fs dataset ex) = Throws e" if "b \<noteq> Loaded"
    using that assms g2 g3 by (auto simp: setDataSet_def split: outcome.splits prod.splits)
qed

lemma setDataSet_barcodes_throw:
  assumes "dataset \<noteq> []" "stat_ok fs dataset"
    and "readBarcodes cap fs dataset (ex\<lparr>this_dataset := dataset\<rparr>) = (Throws e, ex1)"
  shows "setDataSet fp cap fs dataset ex = (Throws e, ex1)"
  using assms by (simp add: setDataSet_def)

text \<open>
  Claim C3, as the code has it. When the barcode load returns, with success or with
  failure, the landmark load runs next, on the extractor the barcode load left, and
  nothing after it touches the landmark table; a failed barcode load still makes the whole
  load throw at the end. The landmark load is skipped only when the barcode load throws,
  which ends the load at once with the landmark table untouched.
\<close>

theorem landmarks_run_after_barcodes:
  "(dataset \<noteq> [] \<and> stat_ok fs dataset
      \<and> readBarcodes cap fs dataset (ex\<lparr>this_dataset := dataset\<rparr>) = (Returns b, ex') \<longrightarrow>
        this_landmarks (snd (setDataSet fp cap fs dataset ex))
          = this_landmarks (snd (readLandmarks fp cap fs dataset ex'))
        \<and> (b \<noteq> Loaded \<longrightarrow> (\<exists>e. fst (setDataSet fp cap fs dataset ex) = Throws e)))
   \<and> (dataset \<noteq> [] \<and> stat_ok fs dataset
      \<and> readBarcodes cap fs dataset (ex\<lparr>this_dataset := dataset\<rparr>) = (Throws e, ex') \<longrightarrow>
        setDataSet fp cap fs dataset ex = (Throws e, ex')
        \<and> this_landmarks ex' = this_landmarks ex)"
proof (intro conjI impI)
  assume a: "dataset \<noteq> [] \<and> stat_ok fs dataset
      \<and> readBarcodes cap fs dataset (ex\<lparr>this_dataset := dataset\<rparr>) = (Throws e, ex')"
  then show "setDataSet fp cap fs dataset ex = (Throws e, ex')"
    by (simp add: setDataSet_barcodes_throw)
  from a readBarcodes_keeps [of cap fs dataset "ex\<lparr>this_dataset := dataset\<rparr>" "Throws e" ex']
  show "this_landmarks ex' = this_landmarks ex" by simp
qed (simp_all add: setDataSet_after_barcodes)

text \<open>
  Claim C3 as stated fails: with no barcode file the barcode load fails, and the landmark
  load still runs and stores the landmark of the file, resolved against the barcodes the
  extractor already held.
\<close>

theorem landmarks_despite_barcodes_counterexample:
  "readBarcodes small landmarks_only ''data'' (one_robot\<lparr>this_dataset := ''data''\<rparr>)
     = (Returns (Failed FileNotFound), one_robot)
   \<and> this_landmarks one_robot = [blank_landmark]
   \<and> this_landmarks (snd (setDataSet binary64 small landmarks_only ''data'' one_robot))
     = [\<lparr>id = 1, barcode = 10, x = dbl 2.0, y = dbl 3.0,
        x_std_dev = dbl 0.1, y_std_dev = dbl 0.1\<rparr>]"
proof -
  have same: "one_robot\<lparr>this_dataset := ''data''\<rparr> = one_robot"
    by (simp add: one_robot_def)
  have b: "readBarcodes small landmarks_only ''data'' one_robot
             = (Returns (Failed FileNotFound), one_robot)"
    by (simp add: readBarcodes_def landmarks_only_def file_defs one_robot_def)
  have opened: "open_ifstream landmarks_only (landmarks_file ''data'') = Some [landmark_line]"
    by (simp add: landmarks_only_def file_defs)
  have st: "stat_ok landmarks_only ''data''"
    by (simp add: landmarks_only_def folder_def)
  have notc: "\<not> is_comment landmark_line"
    by (simp add: landmark_line_def is_comment_def)
  have l: "this_landmarks (snd (readLandmarks binary64 small landmarks_only ''data'' one_robot))
             = [\<lparr>id = 1, barcode = 10, x = dbl 2.0, y = dbl 3.0,
        x_std_dev = dbl 0.1, y_std_dev = dbl 0.1\<rparr>]"
    unfolding readLandmarks_def opened
    using notc landmark_line_row by (simp add: one_robot_def small_def)
  have "this_landmarks (snd (setDataSet binary64 small landmarks_only ''data'' one_robot))
          = this_landmarks (snd (readLandmarks binary64 small landmarks_only ''data'' one_robot))"
    by (rule setDataSet_after_barcodes(1) [where b = "Failed FileNotFound"])
      (simp_all add: st same b)
  with l b same show ?thesis by (simp add: one_robot_def)
qed

lemma one_column_throws:
  "readBarcodes small one_column ''data'' (one_robot\<lparr>this_dataset := ''data''\<rparr>)
     = (Throws OutOfRange, one_robot)"
  by (simp add: readBarcodes_def one_column_def file_defs one_robot_def small_def parse_defs)

theorem landmarks_run_after_barcodes_witness:
  "this_landmarks (snd (setDataSet binary64 small landmarks_only ''data'' one_robot))
     = this_landmarks (snd (readLandmarks binary64 small landmarks_only ''data'' one_robot))
   \<and> fst (setDataSet binary64 small landmarks_only ''data'' one_robot) \<noteq> Returns ()
   \<and> setDataSet binary64 small one_column ''data'' one_robot = (Throws OutOfRange, one_robot)"
proof -
  have returned: "''data'' \<noteq> [] \<and> stat_ok landmarks_only ''data''
      \<and> readBarcodes small landmarks_only ''data'' (one_robot\<lparr>this_dataset := ''data''\<rparr>)
          = (Returns (Failed FileNotFound), one_robot)"
    by (simp add: readBarcodes_def landmarks_only_def file_defs one_robot_def)
  have thrown: "''data'' \<noteq> [] \<and> stat_ok one_column ''data''
      \<and> readBarcodes small one_column ''data'' (one_robot\<lparr>this_dataset := ''data''\<rparr>)
          = (Throws OutOfRange, one_robot)"
    using one_column_throws by (simp add: one_column_def folder_def)
  note first = landmarks_run_after_barcodes [where fp = binary64 and dataset = "''data''" and fs = landmarks_only
      and cap = small and ex = one_robot and b = "Failed FileNotFound" and ex' = one_robot,
      THEN conjunct1, THEN mp, OF returned]
  note second = landmarks_run_after_barcodes [where fp = binary64 and dataset = "''data''" and fs = one_column
      and cap = small and ex = one_robot and e = OutOfRange and ex' = one_robot,
      THEN conjunct2, THEN mp, OF thrown]
  from first second show ?thesis by auto
qed

subsection \<open>Resolving the barcode of a landmark\<close>

lemma landmark_row_unset:
  assumes "int_field line (Some 0) (find_char line TAB 0) = Inr k"
    and "i < length lms"
    and "barcode_at fp bs (k - 1) = 0"
  shows "landmark_row fp bs line i lms
           = (Returns (Failed IntegrityError), lms[i := (lms ! i)\<lparr>id := k\<rparr>])"
  using assms by (simp add: landmark_row_def Let_def)

lemma landmark_row_set:
  assumes "int_field line (Some 0) (find_char line TAB 0) = Inr k"
    and "i < length lms"
    and "barcode_at fp bs (k - 1) \<noteq> 0"
    and "landmark_row fp bs line i lms = (r, lms')"
  shows "r \<noteq> Returns (Failed IntegrityError)"
    and "id (lms' ! i) = k" and "barcode (lms' ! i) = barcode_at fp bs (k - 1)"
    and "length lms' = length lms" and "\<forall>j. j \<noteq> i \<longrightarrow> lms' ! j = lms ! j"
  using assms
  by (auto simp: landmark_row_def Let_def split: sum.splits)

text \<open>
  Claim C5, and where the code leaves it. Take a landmark row that the loop reaches with
  a free slot \<open>i\<close> and whose id parses to \<open>k\<close>. The code reads \<^verbatim>\<open>barcodes_[k - 1]\<close> without
  comparing \<open>k\<close> with the size of the table. For \<open>1 \<le> k \<le> TOTAL_BARCODES\<close> that is the
  entry of the table, and the claim holds: if the entry is 0 the landmark load fails with
  \<open>IntegrityError\<close>; otherwise slot \<open>i\<close> gets the id \<open>k\<close> and that nonzero barcode, no other
  slot changes, the row does not fail with \<open>IntegrityError\<close>, and once its remaining
  fields are parsed the loop goes on with the next row at slot \<open>i + 1\<close>, so the landmarks
  are stored in file order. For an id with no entry in the table, 0 or less or more than
  \<open>TOTAL_BARCODES\<close>, the value read is what the memory beside the table holds: the row is
  rejected only when that happens to be 0, and otherwise it is accepted with that value
  as its barcode.
\<close>

theorem landmark_barcode_resolution:
  assumes "\<not> is_comment l" and "i < cap" and "i < length lms"
    and "int_field (remove_spaces l) (Some 0) (find_char (remove_spaces l) TAB 0) = Inr k"
  shows "(1 \<le> k \<and> k \<le> int (length bs) \<longrightarrow> barcode_at fp bs (k - 1) = bs ! nat (k - 1))
       \<and> (k < 1 \<or> int (length bs) < k \<longrightarrow> barcode_at fp bs (k - 1) = beyond fp (k - 1))
       \<and> (barcode_at fp bs (k - 1) = 0 \<longrightarrow>
            fst (landmarks_loop fp cap bs (l # ls) i lms) = Returns (Failed IntegrityError))
       \<and> (barcode_at fp bs (k - 1) \<noteq> 0 \<longrightarrow>
            (\<exists>r lms'. landmark_row fp bs (remove_spaces l) i lms = (r, lms')
               \<and> r \<noteq> Returns (Failed IntegrityError)
               \<and> id (lms' ! i) = k \<and> barcode (lms' ! i) = barcode_at fp bs (k - 1)
               \<and> length lms' = length lms \<and> (\<forall>j. j \<noteq> i \<longrightarrow> lms' ! j = lms ! j)
               \<and> landmarks_loop fp cap bs (l # ls) i lms
                   = (if r = Returns Loaded then landmarks_loop fp cap bs ls (Suc i) lms'
                      else (r, lms'))))"
proof (intro conjI impI)
  assume "1 \<le> k \<and> k \<le> int (length bs)"
  then show "barcode_at fp bs (k - 1) = bs ! nat (k - 1)"
    by (simp add: barcode_at_def)
next
  assume "k < 1 \<or> int (length bs) < k"
  then show "barcode_at fp bs (k - 1) = beyond fp (k - 1)"
    by (auto simp: barcode_at_def)
next
  assume "barcode_at fp bs (k - 1) = 0"
  with assms show "fst (landmarks_loop fp cap bs (l # ls) i lms) = Returns (Failed IntegrityError)"
    by (simp add: landmark_row_unset)
next
  assume nz: "barcode_at fp bs (k - 1) \<noteq> 0"
  obtain r lms' where row: "landmark_row fp bs (remove_spaces l) i lms = (r, lms')"
    by (cases "landmark_row fp bs (remove_spaces l) i lms")
  note facts = landmark_row_set [OF assms(4) assms(3) nz row]
  have "landmarks_loop fp cap bs (l # ls) i lms
          = (if r = Returns Loaded then landmarks_loop fp cap bs ls (Suc i) lms' else (r, lms'))"
    using assms(1,2) row by (auto split: outcome.splits loaded.splits)
  with row facts show "\<exists>r lms'. landmark_row fp bs (remove_spaces l) i lms = (r, lms')
               \<and> r \<noteq> Returns (Failed IntegrityError)
               \<and> id (lms' ! i) = k \<and> barcode (lms' ! i) = barcode_at fp bs (k - 1)
               \<and> length lms' = length lms \<and> (\<forall>j. j \<noteq> i \<longrightarrow> lms' ! j = lms ! j)
               \<and> landmarks_loop fp cap bs (l # ls) i lms
                   = (if r = Returns Loaded then landmarks_loop fp cap bs ls (Suc i) lms'
                      else (r, lms'))"
    by blast
qed

lemma landmark_line_id:
  "int_field (remove_spaces landmark_line) (Some 0) (find_char (remove_spaces landmark_line) TAB 0)
     = Inr 1"
  by (simp add: landmark_line_def parse_defs)

lemma landmark_three_id:
  "int_field (remove_spaces (tabbed [''3'', ''2.0'', ''3.0'', ''0.1'', ''0.1''])) (Some 0)
     (find_char (remove_spaces (tabbed [''3'', ''2.0'', ''3.0'', ''0.1'', ''0.1''])) TAB 0)
     = Inr 3"
  by (simp add: parse_defs)

lemma landmark_three_row:
  "landmark_row crowded [10, 20]
     (remove_spaces (tabbed [''3'', ''2.0'', ''3.0'', ''0.1'', ''0.1''])) 0 [blank_landmark]
     = (Returns Loaded,
        [\<lparr>id = 3, barcode = 14, x = dbl 2.0, y = dbl 3.0,
          x_std_dev = dbl 0.1, y_std_dev = dbl 0.1\<rparr>])"
  by (simp add: landmark_row_def blank_landmark_def barcode_at_def parse_defs b64_defs)

text \<open>
  The table \<open>[10, 20]\<close> has entries for the ids 1 and 2. A row with id 1 is rejected when
  the table is unset and resolved to 10 when it is set. A row with id 3 has no entry: where
  the memory beside the table holds zeros it is rejected, and where it holds 14 the
  landmark load succeeds and stores the landmark with the barcode 14.
\<close>

theorem landmark_barcode_resolution_witness:
  "fst (landmarks_loop binary64 1 [0, 0] [landmark_line] 0 [blank_landmark])
     = Returns (Failed IntegrityError)
   \<and> landmarks_loop binary64 1 [10, 20] [landmark_line] 0 [blank_landmark]
     = (Returns Loaded,
        [\<lparr>id = 1, barcode = 10, x = dbl 2.0, y = dbl 3.0,
          x_std_dev = dbl 0.1, y_std_dev = dbl 0.1\<rparr>])
   \<and> fst (landmarks_loop binary64 1 [10, 20] [tabbed [''3'', ''2.0'', ''3.0'', ''0.1'', ''0.1'']] 0
          [blank_landmark])
     = Returns (Failed IntegrityError)
   \<and> landmarks_loop crowded 1 [10, 20] [tabbed [''3'', ''2.0'', ''3.0'', ''0.1'', ''0.1'']] 0
        [blank_landmark]
     = (Returns Loaded,
        [\<lparr>id = 3, barcode = 14, x = dbl 2.0, y = dbl 3.0,
          x_std_dev = dbl 0.1, y_std_dev = dbl 0.1\<rparr>])
   \<and> readLandmarks crowded small landmark_three ''data'' one_robot
     = (Returns Loaded,
        one_robot\<lparr>this_landmarks :=
          [\<lparr>id = 3, barcode = 14, x = dbl 2.0, y = dbl 3.0,
            x_std_dev = dbl 0.1, y_std_dev = dbl 0.1\<rparr>]\<rparr>)"
proof -
  let ?three = "tabbed [''3'', ''2.0'', ''3.0'', ''0.1'', ''0.1'']"
  have notc: "\<not> is_comment landmark_line" and notc3: "\<not> is_comment ?three"
    by (simp_all add: landmark_line_def is_comment_def)
  have outside: "(3::int) < 1 \<or> int (length [10, 20 :: int]) < 3"
    by simp
  note unset = landmark_barcode_resolution [where fp = binary64 and l = landmark_line and i = 0
      and cap = 1 and lms = "[blank_landmark]" and k = 1 and bs = "[0, 0]" and ls = "[]",
      OF notc _ _ landmark_line_id, THEN conjunct2, THEN conjunct2, THEN conjunct1]
  note resolved = landmark_barcode_resolution [where fp = binary64 and l = landmark_line
      and i = 0 and cap = 1 and lms = "[blank_landmark]" and k = 1 and bs = "[10, 20]"
      and ls = "[]",
      OF notc _ _ landmark_line_id, THEN conjunct2, THEN conjunct2, THEN conjunct2]
  note beside = landmark_barcode_resolution [where fp = binary64 and l = ?three and i = 0
      and cap = 1 and lms = "[blank_landmark]" and k = 3 and bs = "[10, 20]" and ls = "[]",
      OF notc3 _ _ landmark_three_id, THEN conjunct2, THEN conjunct1, THEN mp, OF _ _ outside]
  note zeros = landmark_barcode_resolution [where fp = binary64 and l = ?three and i = 0
      and cap = 1 and lms = "[blank_landmark]" and k = 3 and bs = "[10, 20]" and ls = "[]",
      OF notc3 _ _ landmark_three_id, THEN conjunct2, THEN conjunct2, THEN conjunct1]
  note garbage = landmark_barcode_resolution [where fp = crowded and l = ?three and i = 0
      and cap = 1 and lms = "[blank_landmark]" and k = 3 and bs = "[10, 20]" and ls = "[]",
      OF notc3 _ _ landmark_three_id, THEN conjunct2, THEN conjunct2, THEN conjunct2]
  from unset
  have first: "fst (landmarks_loop binary64 1 [0, 0] [landmark_line] 0 [blank_landmark])
     = Returns (Failed IntegrityError)"
    by (simp add: barcode_at_def)
  from resolved
  have second: "landmarks_loop binary64 1 [10, 20] [landmark_line] 0 [blank_landmark]
     = (Returns Loaded,
        [\<lparr>id = 1, barcode = 10, x = dbl 2.0, y = dbl 3.0,
          x_std_dev = dbl 0.1, y_std_dev = dbl 0.1\<rparr>])"
    by (simp add: barcode_at_def landmark_line_row)
  from beside have "barcode_at binary64 [10, 20] (3 - 1) = 0"
    by (simp add: binary64_def)
  with zeros
  have third: "fst (landmarks_loop binary64 1 [10, 20] [?three] 0 [blank_landmark])
     = Returns (Failed IntegrityError)"
    by simp
  have "barcode_at crowded [10, 20] (3 - 1) \<noteq> 0"
    by (simp add: barcode_at_def crowded_def)
  with garbage landmark_three_row
  have fourth: "landmarks_loop crowded 1 [10, 20] [?three] 0 [blank_landmark]
     = (Returns Loaded,
        [\<lparr>id = 3, barcode = 14, x = dbl 2.0, y = dbl 3.0,
          x_std_dev = dbl 0.1, y_std_dev = dbl 0.1\<rparr>])"
    by simp
  have opened: "open_ifstream landmark_three (landmarks_file ''data'') = Some [?three]"
    by (simp add: landmark_three_def file_defs)
  have fifth: "readLandmarks crowded small landmark_three ''data'' one_robot
     = (Returns Loaded,
        one_robot\<lparr>this_landmarks :=
          [\<lparr>id = 3, barcode = 14, x = dbl 2.0, y = dbl 3.0,
            x_std_dev = dbl 0.1, y_std_dev = dbl 0.1\<rparr>]\<rparr>)"
    unfolding readLandmarks_def opened
    using fourth by (simp add: one_robot_def small_def)
  from first second third fourth fifth show ?thesis by simp
qed

subsection \<open>The capacity of the barcode table\<close>

lemma barcodes_loop_within:
  "length (filter (\<lambda>l. \<not> is_comment l) ls) + i \<le> cap \<Longrightarrow>
     fst (barcodes_loop cap ls i bs) \<noteq> Returns (Failed CapacityExceeded)"
proof (induction ls arbitrary: i bs)
  case Nil
  then show ?case by simp
next
  case (Cons l ls)
  show ?case
  proof (cases "is_comment l")
    case True
    with Cons show ?thesis by simp
  next
    case False
    with Cons.prems have "i < cap"
      and "length (filter (\<lambda>l. \<not> is_comment l) ls) + Suc i \<le> cap"
      by simp_all
    with False Cons.IH [of "Suc i"] show ?thesis
      by (simp add: Let_def split: sum.splits)
  qed
qed

lemma barcodes_loop_beyond:
  "cap < i + length (filter (\<lambda>l. \<not> is_comment l) ls) \<Longrightarrow> i \<le> cap \<Longrightarrow>
     fst (barcodes_loop cap ls i bs) \<noteq> Returns Loaded"
proof (induction ls arbitrary: i bs)
  case Nil
  then show ?case by simp
next
  case (Cons l ls)
  show ?case
  proof (cases "is_comment l")
    case True
    with Cons show ?thesis by simp
  next
    case False
    show ?thesis
    proof (cases "i < cap")
      case True
      with False Cons.prems have "cap < Suc i + length (filter (\<lambda>l. \<not> is_comment l) ls)"
        and "Suc i \<le> cap"
        by simp_all
      with False True Cons.IH [of "Suc i"] show ?thesis
        by (simp add: Let_def split: sum.splits)
    next
      case over: False
      with False show ?thesis by simp
    qed
  qed
qed

lemma barcodes_loop_exceeded:
  "cap < i + length (filter (\<lambda>l. \<not> is_comment l) ls) \<Longrightarrow> i \<le> cap \<Longrightarrow> cap \<le> length bs \<Longrightarrow>
     \<forall>l \<in> set (take (cap - i) (filter (\<lambda>l. \<not> is_comment l) ls)).
        \<exists>v. barcode_field (remove_spaces l) = Inr v \<Longrightarrow>
     fst (barcodes_loop cap ls i bs) = Returns (Failed CapacityExceeded)"
proof (induction ls arbitrary: i bs)
  case Nil
  then show ?case by simp
next
  case (Cons l ls)
  show ?case
  proof (cases "is_comment l")
    case True
    with Cons show ?thesis by simp
  next
    case False
    show ?thesis
    proof (cases "i < cap")
      case True
      then obtain d where d: "cap - i = Suc d" "cap - Suc i = d"
        by (cases "cap - i") auto
      with False Cons.prems obtain v where v: "barcode_field (remove_spaces l) = Inr v"
        and rest: "\<forall>l \<in> set (take (cap - Suc i) (filter (\<lambda>l. \<not> is_comment l) ls)).
                     \<exists>v. barcode_field (remove_spaces l) = Inr v"
        by auto
      from False True Cons.prems
      have "cap < Suc i + length (filter (\<lambda>l. \<not> is_comment l) ls)" "Suc i \<le> cap"
        "cap \<le> length (bs[i := v])" "i < length bs"
        by simp_all
      with Cons.IH [of "Suc i" "bs[i := v]"] rest False True v show ?thesis
        by (simp add: Let_def)
    next
      case over: False
      with False show ?thesis by simp
    qed
  qed
qed

lemma setDataSet_barcodes_failed:
  assumes "fst (readBarcodes cap fs dataset (ex\<lparr>this_dataset := dataset\<rparr>)) \<noteq> Returns Loaded"
  shows "\<exists>e. fst (setDataSet fp cap fs dataset ex) = Throws e"
proof (cases "dataset \<noteq> [] \<and> stat_ok fs dataset")
  case True
  obtain r ex1 where g: "readBarcodes cap fs dataset (ex\<lparr>this_dataset := dataset\<rparr>) = (r, ex1)"
    by (cases "readBarcodes cap fs dataset (ex\<lparr>this_dataset := dataset\<rparr>)")
  show ?thesis
  proof (cases r)
    case (Returns b)
    with assms g have "b \<noteq> Loaded" by simp
    with True g Returns show ?thesis
      using setDataSet_after_barcodes(2) [of dataset fs cap ex b ex1 fp] by simp
  next
    case (Throws e)
    with True g show ?thesis by (simp add: setDataSet_barcodes_throw)
  qed
next
  case False
  then show ?thesis by (auto simp: setDataSet_def)
qed

text \<open>
  Claim C6: a barcode file with more non-comment rows than \<open>TOTAL_BARCODES\<close> never loads
  successfully, and when the rows that fit are well formed (each parses to a barcode) the
  load fails with \<open>CapacityExceeded\<close>; with at most \<open>TOTAL_BARCODES\<close> rows no
  \<open>CapacityExceeded\<close> occurs. \<^verbatim>\<open>readBarcodes\<close> returns what this loop returns, and whenever
  \<^verbatim>\<open>readBarcodes\<close> does not succeed the whole load throws.
\<close>

theorem barcode_capacity:
  "(cap < length (filter (\<lambda>l. \<not> is_comment l) ls) \<longrightarrow>
      fst (barcodes_loop cap ls 0 bs) \<noteq> Returns Loaded)
   \<and> (cap < length (filter (\<lambda>l. \<not> is_comment l) ls) \<and> cap \<le> length bs
       \<and> (\<forall>l \<in> set (take cap (filter (\<lambda>l. \<not> is_comment l) ls)).
             \<exists>v. barcode_field (remove_spaces l) = Inr v) \<longrightarrow>
      fst (barcodes_loop cap ls 0 bs) = Returns (Failed CapacityExceeded))
   \<and> (length (filter (\<lambda>l. \<not> is_comment l) ls) \<le> cap \<longrightarrow>
      fst (barcodes_loop cap ls 0 bs) \<noteq> Returns (Failed CapacityExceeded))
   \<and> (this_dataset ex \<noteq> [] \<and> open_ifstream fs (barcodes_file dataset) = Some ls \<longrightarrow>
      fst (readBarcodes c fs dataset ex)
        = fst (barcodes_loop (TOTAL_BARCODES c) ls 0 (this_barcodes ex)))
   \<and> (fst (readBarcodes c fs dataset (ex\<lparr>this_dataset := dataset\<rparr>)) \<noteq> Returns Loaded \<longrightarrow>
      (\<exists>e. fst (setDataSet fp c fs dataset ex) = Throws e))"
proof (intro conjI impI)
  assume "cap < length (filter (\<lambda>l. \<not> is_comment l) ls)"
  then show "fst (barcodes_loop cap ls 0 bs) \<noteq> Returns Loaded"
    by (simp add: barcodes_loop_beyond)
next
  assume "cap < length (filter (\<lambda>l. \<not> is_comment l) ls) \<and> cap \<le> length bs
       \<and> (\<forall>l \<in> set (take cap (filter (\<lambda>l. \<not> is_comment l) ls)).
             \<exists>v. barcode_field (remove_spaces l) = Inr v)"
  then show "fst (barcodes_loop cap ls 0 bs) = Returns (Failed CapacityExceeded)"
    by (simp add: barcodes_loop_exceeded)
next
  assume "length (filter (\<lambda>l. \<not> is_comment l) ls) \<le> cap"
  then show "fst (barcodes_loop cap ls 0 bs) \<noteq> Returns (Failed CapacityExceeded)"
    by (simp add: barcodes_loop_within)
next
  assume "this_dataset ex \<noteq> [] \<and> open_ifstream fs (barcodes_file dataset) = Some ls"
  then show "fst (readBarcodes c fs dataset ex)
        = fst (barcodes_loop (TOTAL_BARCODES c) ls 0 (this_barcodes ex))"
    by (simp add: readBarcodes_def split: prod.splits)
next
  assume "fst (readBarcodes c fs dataset (ex\<lparr>this_dataset := dataset\<rparr>)) \<noteq> Returns Loaded"
  then show "\<exists>e. fst (setDataSet fp c fs dataset ex) = Throws e"
    by (rule setDataSet_barcodes_failed)
qed

theorem barcode_capacity_witness:
  "fst (readBarcodes small three_barcodes ''data'' one_robot) = Returns (Failed CapacityExceeded)
   \<and> fst (setDataSet binary64 small three_barcodes ''data'' one_robot) \<noteq> Returns ()
   \<and> fst (readBarcodes small two_column ''data'' one_robot) \<noteq> Returns (Failed CapacityExceeded)"
proof -
  let ?three = "[tabbed [''1'', ''10''], tabbed [''2'', ''20''], tabbed [''3'', ''30'']]"
  let ?two = "[''# Subject Barcode'', tabbed [''1'', ''10''], tabbed [''2'', ''20'']]"
  have same: "one_robot\<lparr>this_dataset := ''data''\<rparr> = one_robot"
    by (simp add: one_robot_def)
  have cap: "TOTAL_BARCODES small = 2" and held: "this_barcodes one_robot = [10, 20]"
    by (simp_all add: small_def one_robot_def)
  have too_many: "2 < length (filter (\<lambda>l. \<not> is_comment l) ?three) \<and> 2 \<le> length [10, 20 :: int]
       \<and> (\<forall>l \<in> set (take 2 (filter (\<lambda>l. \<not> is_comment l) ?three)).
             \<exists>v. barcode_field (remove_spaces l) = Inr v)"
    by (simp add: parse_defs)
  have enough: "length (filter (\<lambda>l. \<not> is_comment l) ?two) \<le> 2"
    by (simp add: is_comment_def)
  have opened3: "this_dataset one_robot \<noteq> []
       \<and> open_ifstream three_barcodes (barcodes_file ''data'') = Some ?three"
    by (simp add: three_barcodes_def file_defs one_robot_def)
  have opened2: "this_dataset one_robot \<noteq> []
       \<and> open_ifstream two_column (barcodes_file ''data'') = Some ?two"
    by (simp add: two_column_def file_defs one_robot_def)
  note exceeded = barcode_capacity [where cap = 2 and ls = ?three and bs = "[10, 20]",
      THEN conjunct2, THEN conjunct1, THEN mp, OF too_many]
  note within = barcode_capacity [where cap = 2 and ls = ?two and bs = "[10, 20]",
      THEN conjunct2, THEN conjunct2, THEN conjunct1, THEN mp, OF enough]
  note read3 = barcode_capacity [where c = small and fs = three_barcodes and dataset = "''data''"
      and ex = one_robot and ls = ?three,
      THEN conjunct2, THEN conjunct2, THEN conjunct2, THEN conjunct1, THEN mp, OF opened3]
  note read2 = barcode_capacity [where c = small and fs = two_column and dataset = "''data''"
      and ex = one_robot and ls = ?two,
      THEN conjunct2, THEN conjunct2, THEN conjunct2, THEN conjunct1, THEN mp, OF opened2]
  note whole = barcode_capacity [where c = small and fs = three_barcodes and dataset = "''data''"
      and ex = one_robot,
      THEN conjunct2, THEN conjunct2, THEN conjunct2, THEN conjunct2]
  have a: "fst (readBarcodes small three_barcodes ''data'' one_robot)
             = Returns (Failed CapacityExceeded)"
    unfolding read3 cap held by (rule exceeded)
  have b: "fst (readBarcodes small two_column ''data'' one_robot)
             \<noteq> Returns (Failed CapacityExceeded)"
    unfolding read2 cap held by (rule within)
  from a whole have "\<exists>e. fst (setDataSet binary64 small three_barcodes ''data'' one_robot) = Throws e"
    by (simp add: same)
  then have "fst (setDataSet binary64 small three_barcodes ''data'' one_robot) \<noteq> Returns ()"
    by auto
  with a b show ?thesis by simp
qed

subsection \<open>The barcode table and the landmark example\<close>

lemma digit_char:
  assumes "k < 10"
  shows "digit_value (''0123456789'' ! k) = k" and "isdigit (''0123456789'' ! k)"
    and "\<not> isspace (''0123456789'' ! k)" and "''0123456789'' ! k \<noteq> CHR '' ''"
    and "''0123456789'' ! k \<noteq> CHR ''-''" and "''0123456789'' ! k \<noteq> CHR ''+''"
proof -
  from assms have "k \<in> {0, 1, 2, 3, 4, 5, 6, 7, 8, 9}" by auto
  then show "digit_value (''0123456789'' ! k) = k" and "isdigit (''0123456789'' ! k)"
    and "\<not> isspace (''0123456789'' ! k)" and "''0123456789'' ! k \<noteq> CHR '' ''"
    and "''0123456789'' ! k \<noteq> CHR ''-''" and "''0123456789'' ! k \<noteq> CHR ''+''"
    by (auto simp: digit_value_def isdigit_def isspace_def)
qed

lemma decimal_value_snoc:
  "decimal_value (ds @ [c]) = 10 * decimal_value ds + digit_value c"
  by (simp add: decimal_value_def)

lemma digits_of_digits: "\<forall>c \<in> set (digits_of n). isdigit c \<and> c \<noteq> CHR '' ''"
proof (induction n rule: digits_of.induct)
  case (1 n)
  show ?case
  proof (cases "n < 10")
    case True
    then show ?thesis by (subst digits_of.simps) (simp add: digit_char)
  next
    case False
    with 1 have "\<forall>c \<in> set (digits_of (n div 10)). isdigit c \<and> c \<noteq> CHR '' ''" by simp
    moreover have "n mod 10 < 10" by simp
    ultimately show ?thesis using False
      by (subst digits_of.simps) (simp add: digit_char)
  qed
qed

lemma decimal_value_digits_of: "decimal_value (digits_of n) = n"
proof (induction n rule: digits_of.induct)
  case (1 n)
  show ?case
  proof (cases "n < 10")
    case True
    then show ?thesis by (subst digits_of.simps) (simp add: decimal_value_def digit_char)
  next
    case False
    with 1 have "decimal_value (digits_of (n div 10)) = n div 10" by simp
    moreover have "n mod 10 < 10" by simp
    ultimately show ?thesis using False
      by (subst digits_of.simps) (simp add: decimal_value_snoc digit_char)
  qed
qed

lemma digits_of_nonempty: "digits_of n \<noteq> []"
  by (subst digits_of.simps) simp

lemma digits_of_head: "\<exists>c cs. digits_of n = c # cs \<and> isdigit c"
  using digits_of_nonempty [of n] digits_of_digits [of n]
  by (cases "digits_of n") auto

lemma isdigit_not_other:
  "isdigit c \<Longrightarrow> \<not> isspace c \<and> c \<noteq> CHR ''-'' \<and> c \<noteq> CHR ''+''"
  by (auto simp: isdigit_def isspace_def)

lemma digits_of_scan:
  "dropWhile isspace (digits_of n) = digits_of n"
  "read_sign (digits_of n) = (False, digits_of n)"
  "takeWhile isdigit (digits_of n) = digits_of n"
proof -
  obtain c cs where d: "digits_of n = c # cs" and c: "isdigit c"
    using digits_of_head by blast
  from isdigit_not_other [OF c] show "dropWhile isspace (digits_of n) = digits_of n"
    by (simp add: d)
  from isdigit_not_other [OF c] show "read_sign (digits_of n) = (False, digits_of n)"
    by (simp add: d read_sign_def)
  show "takeWhile isdigit (digits_of n) = digits_of n"
    using digits_of_digits by (simp add: takeWhile_eq_all_conv)
qed

lemma stoi_after_tab:
  assumes "- 2147483648 \<le> v" and "v \<le> 2147483647"
  shows "stoi (TAB # to_string v) = Inr v"
proof (cases "v < 0")
  case True
  have "dropWhile isspace (TAB # CHR ''-'' # digits_of (nat (- v)))
          = CHR ''-'' # digits_of (nat (- v))"
    by (simp add: isspace_def)
  with True assms show ?thesis
    by (simp add: stoi_def to_string_def read_sign_def digits_of_scan decimal_value_digits_of
        digits_of_nonempty)
next
  case False
  have "dropWhile isspace (TAB # digits_of (nat v)) = digits_of (nat v)"
    by (simp add: isspace_def digits_of_scan)
  with False assms show ?thesis
    by (simp add: stoi_def to_string_def digits_of_scan decimal_value_digits_of
        digits_of_nonempty)
qed

lemma find_from_append:
  "c \<notin> set u \<Longrightarrow> find_from c (u @ c # w) k = Some (k + length u)"
  by (induction u arbitrary: k) auto

lemma remove_spaces_to_string: "remove_spaces (to_string v) = to_string v"
proof -
  have "\<And>n. filter (\<lambda>c. c \<noteq> CHR '' '') (digits_of n) = digits_of n"
    using digits_of_digits by (intro filter_True) auto
  then show ?thesis by (simp add: remove_spaces_def to_string_def)
qed

lemma barcode_field_row:
  assumes "TAB \<notin> set name" and "- 2147483648 \<le> v" and "v \<le> 2147483647"
  shows "barcode_field (remove_spaces (name @ TAB # to_string v)) = Inr v"
proof -
  let ?n = "remove_spaces name"
  have line: "remove_spaces (name @ TAB # to_string v) = ?n @ TAB # to_string v"
    using remove_spaces_to_string [of v] by (simp add: remove_spaces_def)
  from assms(1) have "TAB \<notin> set ?n" by (simp add: remove_spaces_def)
  then have "find_char (?n @ TAB # to_string v) TAB 0 = Some (length ?n)"
    using find_from_append [of TAB ?n "to_string v" 0] by (simp add: find_char_def)
  then show ?thesis
    using stoi_after_tab [OF assms(2,3)]
    by (simp add: line barcode_field_def int_field_def substr_def)
qed

lemma barcodes_loop_order:
  "map (\<lambda>l. barcode_field (remove_spaces l)) (filter (\<lambda>l. \<not> is_comment l) ls) = map Inr vs
     \<Longrightarrow> i + length vs \<le> cap \<Longrightarrow> cap \<le> length bs
     \<Longrightarrow> barcodes_loop cap ls i bs = (Returns Loaded, take i bs @ vs @ drop (i + length vs) bs)"
proof (induction ls arbitrary: i bs vs)
  case Nil
  then show ?case by simp
next
  case (Cons l ls)
  show ?case
  proof (cases "is_comment l")
    case True
    with Cons show ?thesis by simp
  next
    case False
    with Cons.prems obtain v rest where vs: "vs = v # rest"
      and v: "barcode_field (remove_spaces l) = Inr v"
      and rest: "map (\<lambda>l. barcode_field (remove_spaces l)) (filter (\<lambda>l. \<not> is_comment l) ls)
                   = map Inr rest"
      by (cases vs) auto
    from Cons.prems vs have i: "i < cap" "i < length bs" "Suc i + length rest \<le> cap"
      "cap \<le> length (bs[i := v])"
      by simp_all
    from Cons.IH [OF rest i(3,4)]
    have "barcodes_loop cap ls (Suc i) (bs[i := v])
            = (Returns Loaded, take (Suc i) (bs[i := v]) @ rest @ drop (Suc i + length rest) (bs[i := v]))" .
    moreover have "take (Suc i) (bs[i := v]) = take i bs @ [v]"
      using i(2) by (simp add: take_Suc_conv_app_nth)
    ultimately show ?thesis using False v vs i by (simp add: Let_def)
  qed
qed

lemma two_column_barcodes:
  "readBarcodes small two_column ''data'' ((fresh small)\<lparr>this_dataset := ''data''\<rparr>)
     = (Returns Loaded, (fresh small)\<lparr>this_dataset := ''data'', this_barcodes := [10, 20]\<rparr>)"
  by (simp add: readBarcodes_def two_column_def file_defs fresh_def small_def parse_defs
      numeral_2_eq_2)

lemma two_column_landmarks:
  "readLandmarks binary64 small two_column ''data''
       ((fresh small)\<lparr>this_dataset := ''data'', this_barcodes := [10, 20]\<rparr>)
     = (Returns Loaded,
        (fresh small)\<lparr>this_dataset := ''data'', this_barcodes := [10, 20],
           this_landmarks :=
             [\<lparr>id = 1, barcode = 10, x = dbl 2.0, y = dbl 3.0,
                 x_std_dev = dbl 0.1, y_std_dev = dbl 0.1\<rparr>]\<rparr>)"
proof -
  have opened: "open_ifstream two_column (landmarks_file ''data'') = Some [landmark_line]"
    by (simp add: two_column_def file_defs)
  have notc: "\<not> is_comment landmark_line"
    by (simp add: landmark_line_def is_comment_def)
  show ?thesis
    unfolding readLandmarks_def opened
    using notc landmark_line_row by (simp add: fresh_def small_def)
qed

lemma whole_load:
  "setDataSet binary64 small two_column ''data'' (fresh small)
     = (Returns (),
        \<lparr>this_dataset = ''data'', this_barcodes = [10, 20],
         this_landmarks =
           [\<lparr>id = 1, barcode = 10, x = dbl 2.0, y = dbl 3.0,
                 x_std_dev = dbl 0.1, y_std_dev = dbl 0.1\<rparr>],
         this_robots =
           [\<lparr>raw = \<lparr>ground_truth =
                      [\<lparr>gt_time = dbl 10.00, gt_x = dbl 1.5, gt_y = dbl (- 2.5),
                        gt_orientation = dbl 0.25\<rparr>],
                    odometry =
                      [\<lparr>od_time = dbl 10.00, forward_velocity = dbl 0.5,
                        angular_velocity = dbl (- 0.125)\<rparr>],
                    measurements =
                      [\<lparr>time = dbl 10.00, subjects = [5, 6], ranges = [dbl 1.5, dbl 2.5],
                          bearings = [dbl 0.25, dbl 0.5]\<rparr>,
                       \<lparr>time = dbl 10.20, subjects = [7], ranges = [dbl 3.5],
                          bearings = [dbl (- 0.5)]\<rparr>]\<rparr>\<rparr>]\<rparr>)"
  by (simp add: setDataSet_def readBarcodes_def readLandmarks_def readGroundTruth_def
      readOdometry_def readMeasurements_def store_defs file_defs two_column_def robot1_files_def
      fresh_def small_def blank_robot_def blank_landmark_def landmark_line_def landmark_row_def
      add_reading_def new_Measurement_def within_window_def barcode_at_def parse_defs b64_defs
      numeral_2_eq_2)

text \<open>
  Claim C4, as the code has it. \<^verbatim>\<open>readBarcodes\<close> reads the barcode after the first tab of
  a row. When every non-comment row parses and there are at most \<open>TOTAL_BARCODES\<close> of
  them, the load succeeds and the first positions of the table hold the parsed values in
  file order, the later positions staying as they were; a row made of a tab-free first
  column, a tab and the decimal form of an \<^verbatim>\<open>int\<close> parses to exactly that \<^verbatim>\<open>int\<close>. With
  the barcode rows \<^verbatim>\<open>1<TAB>10\<close> and \<^verbatim>\<open>2<TAB>20\<close> and the landmark row
  \<^verbatim>\<open>1<TAB>2.0<TAB>3.0<TAB>0.1<TAB>0.1\<close>, the barcode load and the landmark load both succeed,
  the landmark table is the one landmark with id 1 and barcode 10, and so is what
  \<^verbatim>\<open>getLandmarks\<close> returns after the whole load.
\<close>

theorem barcode_table_order:
  "(map (\<lambda>l. barcode_field (remove_spaces l)) (filter (\<lambda>l. \<not> is_comment l) ls) = map Inr vs
      \<and> length vs \<le> cap \<and> cap \<le> length bs \<longrightarrow>
        barcodes_loop cap ls 0 bs = (Returns Loaded, vs @ drop (length vs) bs))
   \<and> (TAB \<notin> set name \<and> - 2147483648 \<le> v \<and> v \<le> 2147483647 \<longrightarrow>
        barcode_field (remove_spaces (name @ TAB # to_string v)) = Inr v)
   \<and> readBarcodes small two_column ''data'' ((fresh small)\<lparr>this_dataset := ''data''\<rparr>)
       = (Returns Loaded, (fresh small)\<lparr>this_dataset := ''data'', this_barcodes := [10, 20]\<rparr>)
   \<and> readLandmarks binary64 small two_column ''data''
         ((fresh small)\<lparr>this_dataset := ''data'', this_barcodes := [10, 20]\<rparr>)
       = (Returns Loaded,
          (fresh small)\<lparr>this_dataset := ''data'', this_barcodes := [10, 20],
             this_landmarks :=
               [\<lparr>id = 1, barcode = 10, x = dbl 2.0, y = dbl 3.0,
                 x_std_dev = dbl 0.1, y_std_dev = dbl 0.1\<rparr>]\<rparr>)
   \<and> fst (setDataSet binary64 small two_column ''data'' (fresh small)) = Returns ()
   \<and> getLandmarks (snd (setDataSet binary64 small two_column ''data'' (fresh small)))
       = Returns [\<lparr>id = 1, barcode = 10, x = dbl 2.0, y = dbl 3.0,
                 x_std_dev = dbl 0.1, y_std_dev = dbl 0.1\<rparr>]"
proof (intro conjI impI)
  assume "map (\<lambda>l. barcode_field (remove_spaces l)) (filter (\<lambda>l. \<not> is_comment l) ls) = map Inr vs
      \<and> length vs \<le> cap \<and> cap \<le> length bs"
  then show "barcodes_loop cap ls 0 bs = (Returns Loaded, vs @ drop (length vs) bs)"
    using barcodes_loop_order [of ls vs 0 cap bs] by simp
next
  assume "TAB \<notin> set name \<and> - 2147483648 \<le> v \<and> v \<le> 2147483647"
  then show "barcode_field (remove_spaces (name @ TAB # to_string v)) = Inr v"
    by (simp add: barcode_field_row)
next
  show "fst (setDataSet binary64 small two_column ''data'' (fresh small)) = Returns ()"
    by (simp only: whole_load fst_conv)
next
  show "getLandmarks (snd (setDataSet binary64 small two_column ''data'' (fresh small)))
       = Returns [\<lparr>id = 1, barcode = 10, x = dbl 2.0, y = dbl 3.0,
                 x_std_dev = dbl 0.1, y_std_dev = dbl 0.1\<rparr>]"
    unfolding whole_load by (simp add: getLandmarks_def)
qed (rule two_column_barcodes two_column_landmarks)+

theorem barcode_table_order_witness:
  "barcodes_loop 2 [''# Subject Barcode'', tabbed [''1'', ''10''], tabbed [''2'', ''20'']] 0 [0, 0]
     = (Returns Loaded, [10, 20])
   \<and> barcode_field (remove_spaces (''Landmark 1'' @ TAB # to_string 14)) = Inr 14"
proof -
  let ?ls = "[''# Subject Barcode'', tabbed [''1'', ''10''], tabbed [''2'', ''20'']]"
  have rows: "map (\<lambda>l. barcode_field (remove_spaces l)) (filter (\<lambda>l. \<not> is_comment l) ?ls)
                = map Inr [10, 20]
      \<and> length [10, 20 :: int] \<le> 2 \<and> 2 \<le> length [0, 0 :: int]"
    by (simp add: parse_defs)
  have name: "TAB \<notin> set ''Landmark 1'' \<and> - 2147483648 \<le> (14 :: int) \<and> (14 :: int) \<le> 2147483647"
    by simp
  note table = barcode_table_order [where ls = ?ls and vs = "[10, 20]" and cap = 2
      and bs = "[0, 0]", THEN conjunct1, THEN mp, OF rows]
  note field = barcode_table_order [where name = "''Landmark 1''" and v = 14,
      THEN conjunct2, THEN conjunct1, THEN mp, OF name]
  from table field show ?thesis by simp
qed

text \<open>
  Claim C4 as stated fails: on the barcode rows \<^verbatim>\<open>10\<close> and \<^verbatim>\<open>20\<close>, which hold no tab,
  \<^verbatim>\<open>line.find\<close> gives \<^verbatim>\<open>npos\<close> and \<^verbatim>\<open>substr\<close> throws \<^verbatim>\<open>std::out_of_range\<close>: the
  barcode load does not succeed, and the whole load ends there.
\<close>

theorem one_column_barcodes_counterexample:
  "readBarcodes small one_column ''data'' ((fresh small)\<lparr>this_dataset := ''data''\<rparr>)
     = (Throws OutOfRange, (fresh small)\<lparr>this_dataset := ''data''\<rparr>)
   \<and> setDataSet binary64 small one_column ''data'' (fresh small)
     = (Throws OutOfRange, (fresh small)\<lparr>this_dataset := ''data''\<rparr>)"
proof -
  have b: "readBarcodes small one_column ''data'' ((fresh small)\<lparr>this_dataset := ''data''\<rparr>)
     = (Throws OutOfRange, (fresh small)\<lparr>this_dataset := ''data''\<rparr>)"
    by (simp add: readBarcodes_def one_column_def file_defs fresh_def small_def parse_defs)
  have "stat_ok one_column ''data''" by (simp add: one_column_def folder_def)
  with b show ?thesis by (simp add: setDataSet_barcodes_throw)
qed

end
